theory Spec2Isabelle
  imports Complex_Main
begin

section \<open>Python values\<close>

text \<open>
  A Python \<open>str\<close> is a sequence of Unicode code points, and \<open>len\<close> counts code points.
  The bullet glyph of the slides is U+2022, outside ASCII, so text is a list of code points
  and not a list of bytes. \<open>ustr_of\<close> embeds an ASCII literal.
\<close>

type_synonym ustr = "nat list"

type_synonym bytes = "nat list"

definition ustr_of :: "string \<Rightarrow> ustr" where
  "ustr_of s = map of_char s"

text \<open>
  What \<open>json.loads\<close> returns: \<open>None\<close>, a bool, a number, a str, a list or a dict. A dict
  is the list of its items in insertion order, its keys distinct. Numbers carry no claim
  here: only their truth value and their not being text are used.
\<close>

datatype json =
    JNull
  | JBool bool
  | JNum int
  | JStr ustr
  | JArr "json list"
  | JObj "(ustr \<times> json) list"

text \<open>\<open>d.get(key, default)\<close> on a dict.\<close>

definition dict_get :: "(ustr \<times> json) list \<Rightarrow> string \<Rightarrow> json \<Rightarrow> json" where
  "dict_get kvs key dflt = (case map_of kvs (ustr_of key) of None \<Rightarrow> dflt | Some v \<Rightarrow> v)"

text \<open>The truth value of a Python object in a condition.\<close>

fun py_truthy :: "json \<Rightarrow> bool" where
  "py_truthy JNull = False"
| "py_truthy (JBool b) = b"
| "py_truthy (JNum n) = (n \<noteq> 0)"
| "py_truthy (JStr s) = (s \<noteq> [])"
| "py_truthy (JArr xs) = (xs \<noteq> [])"
| "py_truthy (JObj kvs) = (kvs \<noteq> [])"

text \<open>
  \<open>len(x)\<close>: defined on str, list and dict; \<open>None\<close> stands for the TypeError that the
  other values raise.
\<close>

fun py_len :: "json \<Rightarrow> nat option" where
  "py_len (JStr s) = Some (length s)"
| "py_len (JArr xs) = Some (length xs)"
| "py_len (JObj kvs) = Some (length kvs)"
| "py_len _ = None"

text \<open>
  \<open>for x in v\<close>: a list yields its items, a str its characters (each a str of length one),
  a dict its keys; the other values raise TypeError (\<open>None\<close>).
\<close>

fun py_iter :: "json \<Rightarrow> json list option" where
  "py_iter (JArr xs) = Some xs"
| "py_iter (JStr s) = Some (map (\<lambda>c. JStr [c]) s)"
| "py_iter (JObj kvs) = Some (map (\<lambda>kv. JStr (fst kv)) kvs)"
| "py_iter _ = None"

text \<open>
  The items of the slices \<open>v[:mid]\<close> and \<open>v[mid:]\<close>, as iterating each slice yields them.
  Slicing is defined on list and str; a dict raises (\<open>None\<close>).
\<close>

fun py_slices :: "json \<Rightarrow> nat \<Rightarrow> (json list \<times> json list) option" where
  "py_slices (JArr xs) mid = Some (take mid xs, drop mid xs)"
| "py_slices (JStr s) mid = Some (map (\<lambda>c. JStr [c]) (take mid s), map (\<lambda>c. JStr [c]) (drop mid s))"
| "py_slices _ mid = None"

text \<open>
  Assigning to \<open>paragraph.text\<close>: python-pptx takes a str and raises TypeError on anything
  else (\<open>None\<close>). The library is taken to accept every str, whatever its characters.
\<close>

fun as_text :: "json \<Rightarrow> ustr option" where
  "as_text (JStr s) = Some s"
| "as_text _ = None"

text \<open>
  \<open>str.strip()\<close> removes leading and trailing whitespace, where whitespace is what
  \<open>str.isspace\<close> accepts: the ASCII controls 9 to 13 and 28 to 31, the space, and the Unicode
  separators below.
\<close>

definition py_isspace :: "nat \<Rightarrow> bool" where
  "py_isspace c = ((9 \<le> c \<and> c \<le> 13) \<or> (28 \<le> c \<and> c \<le> 32) \<or> c = 133 \<or> c = 160
     \<or> c = 5760 \<or> (8192 \<le> c \<and> c \<le> 8202) \<or> c = 8232 \<or> c = 8233 \<or> c = 8239
     \<or> c = 8287 \<or> c = 12288)"

definition strip :: "ustr \<Rightarrow> ustr" where
  "strip s = rev (dropWhile py_isspace (rev (dropWhile py_isspace s)))"

text \<open>\<open>b.strip()\<close> on a JSON value: only a str has the method (AttributeError otherwise).\<close>

fun py_strip :: "json \<Rightarrow> ustr option" where
  "py_strip (JStr s) = Some (strip s)"
| "py_strip _ = None"

text \<open>All results of a list of steps, or \<open>None\<close> as soon as one of them raises.\<close>

fun all_ok :: "'a option list \<Rightarrow> 'a list option" where
  "all_ok [] = Some []"
| "all_ok (None # xs) = None"
| "all_ok (Some x # xs) = (case all_ok xs of None \<Rightarrow> None | Some ys \<Rightarrow> Some (x # ys))"

section \<open>The deck\<close>

text \<open>
  What the rendering library is given. Lengths are the arguments of \<open>Inches\<close>, font sizes
  and spacings the arguments of \<open>Pt\<close>. A fresh text frame holds one empty paragraph;
  \<open>add_paragraph\<close> appends another.
\<close>

type_synonym rgb = "nat \<times> nat \<times> nat"

datatype align = AlignLeft | AlignCenter

record para =
  par_text :: ustr
  font_bold :: bool
  font_size :: "nat option"
  font_color :: "rgb option"
  alignment :: "align option"
  space_before :: "nat option"
  space_after :: "nat option"

definition new_paragraph :: para where
  "new_paragraph = \<lparr>par_text = [], font_bold = False, font_size = None, font_color = None,
     alignment = None, space_before = None, space_after = None\<rparr>"

record textbox =
  box_left :: real
  box_top :: real
  box_width :: real
  box_height :: real
  word_wrap :: bool
  anchor_top :: bool
  paragraphs :: "para list"

text \<open>\<open>add_textbox(left, top, width, height)\<close>: a frame with its one empty paragraph.\<close>

definition add_textbox :: "real \<Rightarrow> real \<Rightarrow> real \<Rightarrow> real \<Rightarrow> textbox" where
  "add_textbox l t w h = \<lparr>box_left = l, box_top = t, box_width = w, box_height = h,
     word_wrap = False, anchor_top = False, paragraphs = [new_paragraph]\<rparr>"

text \<open>
  A rectangle has its geometry and its solid fill; a picture has the bytes it was read
  from, its left, top and width, and the colour and width of its border.
\<close>

datatype shape =
    Rectangle real real real real rgb
  | TextBox textbox
  | Picture bytes real real real rgb nat

record slide =
  shapes :: "shape list"
  background :: "rgb option"

fun is_picture :: "shape \<Rightarrow> bool" where
  "is_picture (Picture b x y w c lw) = True"
| "is_picture _ = False"

definition DARK_GRAY :: rgb where
  "DARK_GRAY = (80, 80, 80)"

text \<open>The two characters every bullet starts with: U+2022 and a space.\<close>

definition bullet_glyph :: ustr where
  "bullet_glyph = [8226, 32]"

section \<open>The title slide\<close>

definition title_font_size :: "nat \<Rightarrow> nat" where
  "title_font_size n = (if n > 40 then 32 else if n > 25 then 38 else 44)"

definition title_slide :: "rgb \<Rightarrow> (ustr \<times> json) list \<Rightarrow> slide option" where
  "title_slide navy data =
     (case as_text (dict_get data ''presentation_title'' (JStr (ustr_of ''Presentation''))) of
        None \<Rightarrow> None
      | Some title_text \<Rightarrow>
          Some \<lparr>shapes =
            [Rectangle 0 0 10 0.5 navy,
             TextBox ((add_textbox 1 2 8 1.5)\<lparr>word_wrap := True,
               paragraphs := [new_paragraph,
                 new_paragraph\<lparr>par_text := title_text, font_bold := True,
                   font_color := Some navy, alignment := Some AlignCenter,
                   font_size := Some (title_font_size (length title_text))\<rparr>]\<rparr>),
             TextBox ((add_textbox 1 3.5 8 1)\<lparr>
               paragraphs := [new_paragraph,
                 new_paragraph\<lparr>par_text := ustr_of ''Generated by AI Agent'',
                   font_size := Some 20, font_color := Some DARK_GRAY,
                   alignment := Some AlignCenter\<rparr>]\<rparr>)],
           background = None\<rparr>)"

section \<open>The table of contents\<close>

text \<open>
  An f-string \<open>f"... {item}"\<close> formats a str as itself and any other value by Python's
  \<open>str()\<close>, which is a parameter here (\<open>fmt\<close>).
\<close>

definition format_item :: "(json \<Rightarrow> ustr) \<Rightarrow> json \<Rightarrow> ustr" where
  "format_item fmt v = (case v of JStr s \<Rightarrow> s | _ \<Rightarrow> fmt v)"

text \<open>Font size and spacing of the items, by their number (lines 272 to 280).\<close>

definition toc_sizing :: "nat \<Rightarrow> nat \<times> nat" where
  "toc_sizing item_count =
     (if item_count > 8 then (14, 8)
      else if item_count > 5 then (16, 12)
      else (20, 14))"

definition toc_paragraph :: "(json \<Rightarrow> ustr) \<Rightarrow> nat \<times> nat \<Rightarrow> bool \<Rightarrow> json \<Rightarrow> para" where
  "toc_paragraph fmt sz left item =
     new_paragraph\<lparr>par_text := bullet_glyph @ format_item fmt item,
       font_size := Some (fst sz), space_after := Some (snd sz),
       font_color := Some DARK_GRAY,
       alignment := (if left then Some AlignLeft else None)\<rparr>"

text \<open>
  \<open>math.ceil(item_count / 2)\<close>: the quotient of two integers is a float, exact for every
  length a list can have, so the ceiling is \<open>(item_count + 1) div 2\<close>.
\<close>

definition toc_mid :: "nat \<Rightarrow> nat" where
  "toc_mid item_count = (item_count + 1) div 2"

text \<open>
  The text boxes holding the items (lines 284 to 322): two columns when there are more
  than four items, one centred column otherwise.
\<close>

definition toc_boxes :: "(json \<Rightarrow> ustr) \<Rightarrow> json \<Rightarrow> shape list option" where
  "toc_boxes fmt toc_items =
     (case py_len toc_items of
        None \<Rightarrow> None
      | Some item_count \<Rightarrow>
          if item_count > 4 then
            (case py_slices toc_items (toc_mid item_count) of
               None \<Rightarrow> None
             | Some (col1_items, col2_items) \<Rightarrow>
                 Some [TextBox ((add_textbox 1 2 4 3)\<lparr>word_wrap := True,
                         paragraphs := new_paragraph #
                           map (toc_paragraph fmt (toc_sizing item_count) False) col1_items\<rparr>),
                       TextBox ((add_textbox 5.5 2 4 3)\<lparr>word_wrap := True,
                         paragraphs := new_paragraph #
                           map (toc_paragraph fmt (toc_sizing item_count) False) col2_items\<rparr>)])
          else
            (case py_iter toc_items of
               None \<Rightarrow> None
             | Some items \<Rightarrow>
                 Some [TextBox ((add_textbox 2 2 6 3)\<lparr>word_wrap := True,
                         paragraphs := new_paragraph #
                           map (toc_paragraph fmt (toc_sizing item_count) True) items\<rparr>)]))"

definition toc_slide :: "(json \<Rightarrow> ustr) \<Rightarrow> rgb \<Rightarrow> (ustr \<times> json) list \<Rightarrow> slide option" where
  "toc_slide fmt navy data =
     (case toc_boxes fmt (dict_get data ''table_of_contents'' (JArr [])) of
        None \<Rightarrow> None
      | Some boxes \<Rightarrow>
          Some \<lparr>shapes =
            [TextBox ((add_textbox 0.5 0.5 9 1)\<lparr>
               paragraphs := [new_paragraph,
                 new_paragraph\<lparr>par_text := ustr_of ''Table of Contents'', font_bold := True,
                   font_size := Some 32, font_color := Some navy,
                   alignment := Some AlignCenter\<rparr>]\<rparr>),
             Rectangle 4 1.5 2 0.05 navy] @ boxes,
           background = None\<rparr>)"

section \<open>The world outside the program\<close>

text \<open>
  What \<open>json.loads\<close> does with a text: it raises JSONDecodeError, it raises another
  exception (RecursionError on deep nesting, ValueError on an integer with too many
  digits), or it returns a value.
\<close>

datatype parsed = JSONDecodeError | OtherError | Parsed json

text \<open>
  Everything the program takes from outside is a parameter. \<open>json_loads\<close> is the parser,
  \<open>py_str\<close> is Python's \<open>str()\<close> on values that are not text, \<open>int16\<close> is \<open>int(s, 16)\<close>
  (\<open>None\<close>: ValueError), \<open>pexels_api_key\<close> is the module's global read from the process
  environment, \<open>picture_ok\<close> says whether \<open>add_picture\<close> accepts a file of these bytes as
  an image (it raises otherwise), \<open>uuid4_hex\<close> is the hexadecimal form of the random
  identifier, and \<open>encodable\<close> says which code points the encoding of the standard output
  has (UTF-8 has all but the surrogates).
\<close>

record env =
  json_loads :: "ustr \<Rightarrow> parsed"
  py_str :: "json \<Rightarrow> ustr"
  int16 :: "ustr \<Rightarrow> int option"
  pexels_api_key :: "ustr option"
  picture_ok :: "bytes \<Rightarrow> bool"
  uuid4_hex :: ustr
  encodable :: "nat \<Rightarrow> bool"

text \<open>
  \<open>print(f"... {v}")\<close> raises UnicodeEncodeError when the standard output cannot encode
  a code point of the text \<open>v\<close> is formatted to. The fixed parts of the messages are ASCII
  and are taken to be encodable, and so are the status codes and the messages of the
  exceptions that the handlers print.
\<close>

definition printable :: "env \<Rightarrow> json \<Rightarrow> bool" where
  "printable e v = list_all (encodable e) (format_item (py_str e) v)"

text \<open>What a call that may be left by an exception gives: it raises or it returns.\<close>

datatype 'a result = Raises | Returns 'a

text \<open>
  The outcome of one \<open>requests.get\<close>: the call raises, or it returns a response with its
  status code, its body and what \<open>response.json()\<close> makes of the body (\<open>None\<close>: it raises).
\<close>

datatype http_result = ConnectionError | Response int bytes "json option"

datatype request = Search json | Download json

datatype file_content = ImageFile bytes | DeckFile "slide list"

text \<open>
  The state the program acts on. \<open>net k\<close> is what the \<open>k\<close>-th HTTP request of the process
  is answered with, whatever it asks for: every behaviour of the network is one such
  function. \<open>requests\<close> is the log of the requests made so far, \<open>sleeps\<close> the log of the
  arguments of \<open>time.sleep\<close>, and \<open>files\<close> the working directory. Writing and removing a
  file in the working directory is taken to succeed.
\<close>

record world =
  net :: "nat \<Rightarrow> http_result"
  requests :: "request list"
  sleeps :: "nat list"
  files :: "ustr \<Rightarrow> file_content option"

definition requests_get :: "request \<Rightarrow> world \<Rightarrow> http_result \<times> world" where
  "requests_get r w = (net w (length (requests w)), w\<lparr>requests := requests w @ [r]\<rparr>)"

definition sleep :: "nat \<Rightarrow> world \<Rightarrow> world" where
  "sleep seconds w = w\<lparr>sleeps := sleeps w @ [seconds]\<rparr>"

section \<open>The theme colour\<close>

definition hex_to_rgb :: "(ustr \<Rightarrow> int option) \<Rightarrow> ustr \<Rightarrow> (int \<times> int \<times> int) option" where
  "hex_to_rgb to_int hex_color =
     (let h = dropWhile (\<lambda>c. c = 35) hex_color
      in case (to_int (take 2 h), to_int (take 2 (drop 2 h)), to_int (take 2 (drop 4 h))) of
           (Some r, Some g, Some b) \<Rightarrow> Some (r, g, b)
         | _ \<Rightarrow> None)"

text \<open>
  Lines 174 to 178: the colour the user chose, or the fallback when \<open>hex_to_rgb\<close> raises or
  \<open>RGBColor\<close> refuses a component outside 0 to 255.
\<close>

definition NAVY_BLUE :: "(ustr \<Rightarrow> int option) \<Rightarrow> ustr \<Rightarrow> rgb" where
  "NAVY_BLUE to_int theme_color =
     (case hex_to_rgb to_int theme_color of
        Some (r, g, b) \<Rightarrow>
          if 0 \<le> r \<and> r \<le> 255 \<and> 0 \<le> g \<and> g \<le> 255 \<and> 0 \<le> b \<and> b \<le> 255
          then (nat r, nat g, nat b) else (0, 51, 102)
      | None \<Rightarrow> (0, 51, 102))"

section \<open>Finding and downloading an image\<close>

text \<open>\<open>x[0]\<close> and \<open>x[key]\<close> for a str key; \<open>None\<close> is the exception they raise.\<close>

fun first_item :: "json \<Rightarrow> json option" where
  "first_item (JArr (x # xs)) = Some x"
| "first_item (JStr (c # s)) = Some (JStr [c])"
| "first_item _ = None"

fun item :: "json \<Rightarrow> string \<Rightarrow> json option" where
  "item (JObj kvs) key = map_of kvs (ustr_of key)"
| "item _ key = None"

text \<open>\<open>data['photos'][0]['src']['landscape']\<close>.\<close>

definition landscape_url :: "json \<Rightarrow> json option" where
  "landscape_url photos =
     Option.bind (Option.bind (first_item photos) (\<lambda>photo. item photo ''src''))
       (\<lambda>src. item src ''landscape'')"

text \<open>
  \<open>generate_image\<close> (lines 115 to 150). Python's \<open>None\<close> is \<open>JNull\<close>. Without a key no
  request is made. With a key the prompt is printed first (line 122), before the \<open>try\<close>
  of line 123: when the print raises, the exception leaves the function. Then one request
  is made, and every exception after it is caught, the one of the print of the URL found
  (line 140) among them: a URL that cannot be printed is not returned.
\<close>

definition generate_image :: "env \<Rightarrow> json \<Rightarrow> world \<Rightarrow> json result \<times> world" where
  "generate_image e prompt w =
     (if pexels_api_key e = None \<or> pexels_api_key e = Some [] then (Returns JNull, w)
      else if \<not> printable e prompt then (Raises, w)
      else
        (case requests_get (Search prompt) w of
           (ConnectionError, w1) \<Rightarrow> (Returns JNull, w1)
         | (Response status_code content body, w1) \<Rightarrow>
             if status_code = 200 then
               (case body of
                  Some (JObj data) \<Rightarrow>
                    if py_truthy (dict_get data ''photos'' JNull) then
                      (case landscape_url (dict_get data ''photos'' JNull) of
                         None \<Rightarrow> (Returns JNull, w1)
                       | Some image_url \<Rightarrow>
                           if printable e image_url then (Returns image_url, w1)
                           else (Returns JNull, w1))
                    else (Returns JNull, w1)
                | _ \<Rightarrow> (Returns JNull, w1))
             else (Returns JNull, w1)))"

text \<open>
  The loop of \<open>fetch_image\<close> (lines 187 to 197), \<open>for attempt in range(retries)\<close>, with
  \<open>attempt\<close> the number of the pass and \<open>left\<close> the passes still to run. The result is
  what the function returns when the loop is entered: the body of the response, or \<open>None\<close>
  when the passes are used up (lines 198 and 199).
\<close>

fun fetch_loop :: "json \<Rightarrow> nat \<Rightarrow> nat \<Rightarrow> world \<Rightarrow> bytes option \<times> world" where
  "fetch_loop url attempt 0 w = (None, w)"
| "fetch_loop url attempt (Suc left) w =
     (case requests_get (Download url) w of
        (ConnectionError, w1) \<Rightarrow> fetch_loop url (attempt + 1) left (sleep (1 * (attempt + 1)) w1)
      | (Response status_code content body, w1) \<Rightarrow>
          if status_code = 200 then (Some content, w1)
          else fetch_loop url (attempt + 1) left (sleep (1 * (attempt + 1)) w1))"

text \<open>
  \<open>fetch_image\<close> (lines 184 to 199). The URL is printed first (line 185), outside every
  \<open>try\<close>: when the print raises, the exception leaves the function before any request.
\<close>

definition fetch_image :: "env \<Rightarrow> json \<Rightarrow> nat \<Rightarrow> world \<Rightarrow> bytes option result \<times> world" where
  "fetch_image e url retries w =
     (if \<not> printable e url then (Raises, w)
      else (case fetch_loop url 0 retries w of (img, w1) \<Rightarrow> (Returns img, w1)))"

text \<open>
  Lines 358 to 364: the image of one slide, \<open>None\<close> when none was asked for, found or
  downloaded. \<open>fetch_image\<close> is called with its default of 3 retries. An exception that
  leaves \<open>generate_image\<close> or \<open>fetch_image\<close> is not caught here.
\<close>

definition try_image :: "env \<Rightarrow> bool \<Rightarrow> json \<Rightarrow> world \<Rightarrow> bytes option result \<times> world" where
  "try_image e include_images image_description w =
     (if include_images \<and> py_truthy image_description then
        (case generate_image e image_description w of
           (Raises, w1) \<Rightarrow> (Raises, w1)
         | (Returns img_url, w1) \<Rightarrow>
             if py_truthy img_url then fetch_image e img_url 3 w1 else (Returns None, w1))
      else (Returns None, w))"

section \<open>The content slides\<close>

definition slide_title_font_size :: "nat \<Rightarrow> nat" where
  "slide_title_font_size n = (if n > 50 then 24 else if n > 35 then 26 else 28)"

text \<open>The title box of a content slide and the rule under it (lines 331 to 355).\<close>

definition title_shapes :: "rgb \<Rightarrow> ustr \<Rightarrow> shape list" where
  "title_shapes navy slide_title =
     [TextBox ((add_textbox 0.5 0.3 9 0.8)\<lparr>word_wrap := True,
        paragraphs := [new_paragraph\<lparr>par_text := slide_title, font_bold := True,
          font_color := Some navy,
          font_size := Some (slide_title_font_size (length slide_title))\<rparr>]\<rparr>),
      Rectangle 0.5 1.1 9 0.03 navy]"

text \<open>
  Lines 386 to 388: the bullets of a slide, stripped, the blank ones left out, and the
  placeholder when none is left. \<open>None\<close> when the content cannot be iterated or an item
  has no \<open>strip\<close>.
\<close>

definition content_bullets :: "json \<Rightarrow> ustr list option" where
  "content_bullets content =
     (case py_iter content of
        None \<Rightarrow> None
      | Some items \<Rightarrow>
          (case all_ok (map py_strip items) of
             None \<Rightarrow> None
           | Some stripped \<Rightarrow>
               Some (if filter (\<lambda>b. b \<noteq> []) stripped = []
                     then [ustr_of ''(No content generated)'']
                     else filter (\<lambda>b. b \<noteq> []) stripped)))"

text \<open>Lines 392 to 402: font size and spacing of the body, by the summed length.\<close>

definition total_chars :: "ustr list \<Rightarrow> nat" where
  "total_chars bullets = sum_list (map length bullets)"

definition body_sizing :: "nat \<Rightarrow> nat \<times> nat" where
  "body_sizing chars =
     (if chars > 600 then (12, 4)
      else if chars > 400 then (14, 6)
      else (16, 8))"

definition bullet_paragraph :: "nat \<times> nat \<Rightarrow> ustr \<Rightarrow> para" where
  "bullet_paragraph sz bullet =
     new_paragraph\<lparr>par_text := bullet_glyph @ bullet, font_size := Some (fst sz),
       font_color := Some DARK_GRAY, space_before := Some (snd sz),
       space_after := Some (snd sz)\<rparr>"

text \<open>Lines 370 to 383 and 405 to 412: the body text box.\<close>

definition content_width :: "bool \<Rightarrow> real" where
  "content_width has_image = (if has_image then 5.0 else 9.0)"

definition content_shape :: "bool \<Rightarrow> ustr list \<Rightarrow> textbox" where
  "content_shape has_image bullets =
     (add_textbox 0.5 1.4 (content_width has_image) 3.9)\<lparr>word_wrap := True, anchor_top := True,
        paragraphs := new_paragraph #
          map (bullet_paragraph (body_sizing (total_chars bullets))) bullets\<rparr>"

text \<open>The decimal digits of \<open>i\<close>, as \<open>f"{i}"\<close> writes them.\<close>

fun decimal :: "nat \<Rightarrow> ustr" where
  "decimal n = (if n < 10 then [48 + n] else decimal (n div 10) @ [48 + n mod 10])"

declare decimal.simps [simp del]

definition temp_filename :: "nat \<Rightarrow> ustr" where
  "temp_filename i = ustr_of ''temp_img_'' @ decimal i @ ustr_of ''.jpg''"

text \<open>
  Lines 416 to 428. The bytes are written to the temporary file; \<open>add_picture\<close> reads it
  and, when it accepts the bytes, the picture gets its border and the file is removed.
  When \<open>add_picture\<close> raises, the handler prints a message and the statements after it in
  the \<open>try\<close> block, the removal among them, are not run.
\<close>

definition place_image :: "(bytes \<Rightarrow> bool) \<Rightarrow> rgb \<Rightarrow> nat \<Rightarrow> bytes option \<Rightarrow> world \<Rightarrow> shape list \<times> world" where
  "place_image accepts navy i img_data w =
     (case img_data of
        None \<Rightarrow> ([], w)
      | Some b \<Rightarrow>
          if accepts b
          then ([Picture b 6.0 2.0 3.5 navy 2],
                w\<lparr>files := ((files w)(temp_filename i \<mapsto> ImageFile b))(temp_filename i := None)\<rparr>)
          else ([], w\<lparr>files := (files w)(temp_filename i \<mapsto> ImageFile b)\<rparr>))"

text \<open>
  One pass of the loop over the slides (lines 327 to 428): the slide built for
  \<open>slide_info\<close>, or \<open>None\<close> when an exception leaves the function, and the world as the pass
  leaves it.
\<close>

definition content_slide :: "env \<Rightarrow> rgb \<Rightarrow> bool \<Rightarrow> nat \<Rightarrow> json \<Rightarrow> world \<Rightarrow> slide option \<times> world" where
  "content_slide e navy include_images i slide_info w =
     (case slide_info of
        JObj info \<Rightarrow>
          (case as_text (dict_get info ''title'' (JStr (ustr_of ''Slide''))) of
             None \<Rightarrow> (None, w)
           | Some slide_title \<Rightarrow>
               (case try_image e include_images (dict_get info ''image_description'' JNull) w of
                  (Raises, w1) \<Rightarrow> (None, w1)
                | (Returns img_data, w1) \<Rightarrow>
                    (case content_bullets (dict_get info ''content'' (JArr [])) of
                       None \<Rightarrow> (None, w1)
                     | Some bullets \<Rightarrow>
                         (case place_image (picture_ok e) navy i img_data w1 of
                            (pictures, w2) \<Rightarrow>
                              (Some \<lparr>shapes = title_shapes navy slide_title
                                        @ [TextBox (content_shape (img_data \<noteq> None) bullets)]
                                        @ pictures,
                                      background = None\<rparr>, w2)))))
      | _ \<Rightarrow> (None, w))"

fun content_slides :: "env \<Rightarrow> rgb \<Rightarrow> bool \<Rightarrow> nat \<Rightarrow> json list \<Rightarrow> world \<Rightarrow> slide list option \<times> world" where
  "content_slides e navy include_images i [] w = (Some [], w)"
| "content_slides e navy include_images i (slide_info # rest) w =
     (case content_slide e navy include_images i slide_info w of
        (None, w1) \<Rightarrow> (None, w1)
      | (Some s, w1) \<Rightarrow>
          (case content_slides e navy include_images (Suc i) rest w1 of
             (None, w2) \<Rightarrow> (None, w2)
           | (Some ss, w2) \<Rightarrow> (Some (s # ss), w2)))"

section \<open>The conclusion and the closing slide\<close>

text \<open>Lines 459 to 468: the conclusion has bands of its own.\<close>

definition conclusion_sizing :: "nat \<Rightarrow> nat \<times> nat" where
  "conclusion_sizing chars =
     (if chars > 500 then (14, 8)
      else if chars > 300 then (16, 10)
      else (20, 14))"

definition conclusion_paragraph :: "(json \<Rightarrow> ustr) \<Rightarrow> nat \<times> nat \<Rightarrow> json \<Rightarrow> para" where
  "conclusion_paragraph fmt sz point =
     new_paragraph\<lparr>par_text := bullet_glyph @ format_item fmt point, font_size := Some (fst sz),
       font_color := Some DARK_GRAY, space_after := Some (snd sz)\<rparr>"

text \<open>
  Lines 456 to 477: the body of the conclusion. The points are rendered as they are
  given; their lengths are summed by \<open>len\<close>, which raises on a point that has none.
\<close>

definition conclusion_body :: "(json \<Rightarrow> ustr) \<Rightarrow> json \<Rightarrow> textbox option" where
  "conclusion_body fmt content =
     (case py_iter content of
        None \<Rightarrow> None
      | Some conc_points \<Rightarrow>
          (case all_ok (map py_len conc_points) of
             None \<Rightarrow> None
           | Some lens \<Rightarrow>
               Some ((add_textbox 1 1.5 8 3.5)\<lparr>word_wrap := True,
                 paragraphs := new_paragraph #
                   map (conclusion_paragraph fmt (conclusion_sizing (sum_list lens)))
                     conc_points\<rparr>)))"

definition conclusion_slide :: "(json \<Rightarrow> ustr) \<Rightarrow> rgb \<Rightarrow> (ustr \<times> json) list \<Rightarrow> slide option" where
  "conclusion_slide fmt navy data =
     (case dict_get data ''conclusion'' (JObj []) of
        JObj conclusion_data \<Rightarrow>
          (case as_text (dict_get conclusion_data ''title'' (JStr (ustr_of ''Conclusion''))) of
             None \<Rightarrow> None
           | Some title \<Rightarrow>
               (case conclusion_body fmt (dict_get conclusion_data ''content'' (JArr [])) of
                  None \<Rightarrow> None
                | Some body \<Rightarrow>
                    Some \<lparr>shapes =
                      [TextBox ((add_textbox 0.5 0.3 9 0.8)\<lparr>
                         paragraphs := [new_paragraph\<lparr>par_text := title, font_bold := True,
                           font_size := Some 28, font_color := Some navy\<rparr>]\<rparr>),
                       Rectangle 0.5 1.1 9 0.03 navy,
                       TextBox body],
                     background = None\<rparr>))
      | _ \<Rightarrow> None)"

definition closing_slide :: "rgb \<Rightarrow> slide" where
  "closing_slide navy =
     \<lparr>shapes =
        [TextBox ((add_textbox 2 2 6 2)\<lparr>word_wrap := True,
           paragraphs := [new_paragraph,
             new_paragraph\<lparr>par_text := ustr_of ''Thank You'', font_bold := True,
               font_size := Some 54, font_color := Some (255, 255, 255),
               alignment := Some AlignCenter\<rparr>]\<rparr>)],
      background = Some navy\<rparr>"

section \<open>\<open>create_ppt_file\<close>\<close>

text \<open>
  A call returns \<open>None\<close>, returns the name of the file it saved, or is left by an exception
  that nothing catches. The presentation object is local to the call: it is observed through
  the file \<open>prs.save\<close> writes, and is lost when the call raises. Only JSONDecodeError is
  caught at line 157: another exception of \<open>json.loads\<close> leaves the call, and so does the
  AttributeError of \<open>data.get\<close> at line 216 when the value parsed is not a dict.
\<close>

datatype outcome = Raised | Returned "ustr option"

definition deck_filename :: "ustr \<Rightarrow> ustr" where
  "deck_filename hex = ustr_of ''generated_presentation_'' @ take 6 hex @ ustr_of ''.pptx''"

definition create_ppt_file :: "env \<Rightarrow> ustr \<Rightarrow> bool \<Rightarrow> ustr \<Rightarrow> world \<Rightarrow> outcome \<times> world" where
  "create_ppt_file e slide_data include_images theme_color w =
     (case json_loads e slide_data of
        JSONDecodeError \<Rightarrow> (Returned None, w)
      | OtherError \<Rightarrow> (Raised, w)
      | Parsed (JObj data) \<Rightarrow>
          (case title_slide (NAVY_BLUE (int16 e) theme_color) data of
             None \<Rightarrow> (Raised, w)
           | Some s1 \<Rightarrow>
          (case toc_slide (py_str e) (NAVY_BLUE (int16 e) theme_color) data of
             None \<Rightarrow> (Raised, w)
           | Some s2 \<Rightarrow>
          (case py_iter (dict_get data ''slides'' (JArr [])) of
             None \<Rightarrow> (Raised, w)
           | Some slides_content \<Rightarrow>
          (case content_slides e (NAVY_BLUE (int16 e) theme_color) include_images 0 slides_content w of
             (None, w1) \<Rightarrow> (Raised, w1)
           | (Some ss, w1) \<Rightarrow>
          (case conclusion_slide (py_str e) (NAVY_BLUE (int16 e) theme_color) data of
             None \<Rightarrow> (Raised, w1)
           | Some s4 \<Rightarrow>
               (Returned (Some (deck_filename (uuid4_hex e))),
                w1\<lparr>files := (files w1)(deck_filename (uuid4_hex e) \<mapsto>
                  DeckFile ([s1, s2] @ ss @ [s4, closing_slide (NAVY_BLUE (int16 e) theme_color)]))\<rparr>))))))
      | Parsed _ \<Rightarrow> (Raised, w))"

section \<open>Content trees\<close>

text \<open>
  The tree the generation prompt asks for (lines 67 to 85), every field optional: a dict
  whose title is text, whose table of contents is a list, whose slides are dicts with a
  text title and a list of text bullets, and whose conclusion is such a dict too. The image
  description of a slide may be any value.
\<close>

fun is_str :: "json \<Rightarrow> bool" where
  "is_str (JStr s) = True"
| "is_str _ = False"

fun is_list :: "json \<Rightarrow> bool" where
  "is_list (JArr xs) = True"
| "is_list _ = False"

fun is_str_list :: "json \<Rightarrow> bool" where
  "is_str_list (JArr xs) = list_all is_str xs"
| "is_str_list _ = False"

definition field_ok :: "(ustr \<times> json) list \<Rightarrow> string \<Rightarrow> (json \<Rightarrow> bool) \<Rightarrow> bool" where
  "field_ok kvs key ok = (case map_of kvs (ustr_of key) of None \<Rightarrow> True | Some v \<Rightarrow> ok v)"

fun content_entry :: "json \<Rightarrow> bool" where
  "content_entry (JObj info) = (field_ok info ''title'' is_str \<and> field_ok info ''content'' is_str_list)"
| "content_entry _ = False"

fun content_entries :: "json \<Rightarrow> bool" where
  "content_entries (JArr xs) = list_all content_entry xs"
| "content_entries _ = False"

definition content_tree :: "(ustr \<times> json) list \<Rightarrow> bool" where
  "content_tree data =
     (field_ok data ''presentation_title'' is_str \<and>
      field_ok data ''table_of_contents'' is_list \<and>
      field_ok data ''slides'' content_entries \<and>
      field_ok data ''conclusion'' content_entry)"

text \<open>
  The image descriptions that are looked up can be printed: this is what keeps the print
  of line 122 from raising.
\<close>

fun description_printable :: "env \<Rightarrow> json \<Rightarrow> bool" where
  "description_printable e (JObj info) =
     (if py_truthy (dict_get info ''image_description'' JNull)
      then printable e (dict_get info ''image_description'' JNull) else True)"
| "description_printable e _ = True"

text \<open>The entries of \<open>slides\<close>, as the loop receives them.\<close>

definition slides_of :: "(ustr \<times> json) list \<Rightarrow> json list" where
  "slides_of data = (case py_iter (dict_get data ''slides'' (JArr [])) of None \<Rightarrow> [] | Some xs \<Rightarrow> xs)"

definition descriptions_printable :: "env \<Rightarrow> (ustr \<times> json) list \<Rightarrow> bool" where
  "descriptions_printable e data = list_all (description_printable e) (slides_of data)"

text \<open>
  A download attempt fails when the request raises or the status is not 200 (lines 188
  to 196).
\<close>

fun attempt_failed :: "http_result \<Rightarrow> bool" where
  "attempt_failed ConnectionError = True"
| "attempt_failed (Response status_code content body) = (status_code \<noteq> 200)"

text \<open>
  The width of the body of a content slide: its text box is the third shape the loop adds
  to the slide, after the title box and the rule (line 380).
\<close>

definition body_width :: "slide \<Rightarrow> real option" where
  "body_width s = (case drop 2 (shapes s) of TextBox body # rest \<Rightarrow> Some (box_width body) | _ \<Rightarrow> None)"

text \<open>A deck file that is there after a step was there before it.\<close>

definition no_new_deck :: "world \<Rightarrow> world \<Rightarrow> bool" where
  "no_new_deck w w' = (\<forall>name d. files w' name = Some (DeckFile d) \<longrightarrow> files w name = Some (DeckFile d))"

section \<open>A small deck, for concrete runs\<close>

text \<open>
  Two slides, three entries in the table of contents. The first slide asks for an image
  and has a blank bullet and bullets with spaces around them; the conclusion has a blank
  point.
\<close>

definition demo_slide :: json where
  "demo_slide =
     JObj [(ustr_of ''title'', JStr (ustr_of ''Paths'')),
           (ustr_of ''content'', JArr [JStr (ustr_of '' walk ''), JStr (ustr_of ''  ''),
                                        JStr (ustr_of ''trail'')]),
           (ustr_of ''image_description'', JStr (ustr_of ''road''))]"

definition demo_data :: "(ustr \<times> json) list" where
  "demo_data =
     [(ustr_of ''presentation_title'', JStr (ustr_of ''Graphs'')),
      (ustr_of ''table_of_contents'',
         JArr [JStr (ustr_of ''Paths''), JStr (ustr_of ''Trees''), JStr (ustr_of ''Cuts'')]),
      (ustr_of ''slides'',
         JArr [demo_slide,
               JObj [(ustr_of ''title'', JStr (ustr_of ''Trees'')),
                     (ustr_of ''content'', JArr [JStr (ustr_of ''leaf'')])]]),
      (ustr_of ''conclusion'',
         JObj [(ustr_of ''title'', JStr (ustr_of ''Conclusion'')),
               (ustr_of ''content'', JArr [JStr [], JStr (ustr_of ''done'')])])]"

definition demo_raw :: ustr where
  "demo_raw = ustr_of ''{ the serialised tree }''"

definition demo_raw_short :: ustr where
  "demo_raw_short = ustr_of ''{ the same tree, its table of contents empty }''"

text \<open>
  A tree of one slide whose image description is the lone surrogate U+D800, which
  \<open>json.loads\<close> accepts from the escape \<open>\ud800\<close> and no encoding of the output has.
\<close>

definition demo_surrogate :: "(ustr \<times> json) list" where
  "demo_surrogate =
     [(ustr_of ''slides'', JArr [JObj [(ustr_of ''image_description'', JStr [55296])]])]"

definition demo_raw_surrogate :: ustr where
  "demo_raw_surrogate = ustr_of ''{ the serialised tree with the surrogate }''"

text \<open>
  Two texts that are no trees: the empty list, which parses, and a hundred thousand
  opening brackets, on which \<open>json.loads\<close> raises RecursionError.
\<close>

definition demo_raw_list :: ustr where
  "demo_raw_list = ustr_of ''[]''"

definition demo_raw_deep :: ustr where
  "demo_raw_deep = replicate 100000 91"

text \<open>
  The parser knows these texts and rejects every other with JSONDecodeError; pictures are
  files that start with the JPEG marker; the output is UTF-8.
\<close>

definition demo_env :: env where
  "demo_env =
     \<lparr>json_loads = (\<lambda>s. if s = demo_raw then Parsed (JObj demo_data)
                       else if s = demo_raw_short
                         then Parsed (JObj ((ustr_of ''table_of_contents'', JArr []) # demo_data))
                       else if s = demo_raw_surrogate then Parsed (JObj demo_surrogate)
                       else if s = demo_raw_list then Parsed (JArr [])
                       else if s = demo_raw_deep then OtherError
                       else JSONDecodeError),
      py_str = (\<lambda>v. []),
      int16 = (\<lambda>s. None),
      pexels_api_key = Some (ustr_of ''key''),
      picture_ok = (\<lambda>b. take 2 b = [255, 216]),
      uuid4_hex = ustr_of ''0a1b2c3d4e5f'',
      encodable = (\<lambda>c. c < 55296 \<or> 57343 < c)\<rparr>"

definition demo_found :: http_result where
  "demo_found =
     Response 200 []
       (Some (JObj [(ustr_of ''photos'',
          JArr [JObj [(ustr_of ''src'',
            JObj [(ustr_of ''landscape'', JStr (ustr_of ''https://img''))])]])]))"

text \<open>
  Three networks. In each the search finds a URL. Then the download delivers a JPEG, or
  it delivers an error page under status 200, or it fails every time.
\<close>

definition world_jpeg :: world where
  "world_jpeg =
     \<lparr>net = (\<lambda>k. if k = 0 then demo_found else Response 200 [255, 216, 255] None),
      requests = [], sleeps = [], files = (\<lambda>name. None)\<rparr>"

definition world_page :: world where
  "world_page =
     \<lparr>net = (\<lambda>k. if k = 0 then demo_found else Response 200 [60, 104, 49, 62] None),
      requests = [], sleeps = [], files = (\<lambda>name. None)\<rparr>"

definition world_down :: world where
  "world_down =
     \<lparr>net = (\<lambda>k. if k = 0 then demo_found else if k = 2 then Response 503 [] None else ConnectionError),
      requests = [], sleeps = [], files = (\<lambda>name. None)\<rparr>"

section \<open>Facts about the model\<close>

lemma ustr_of_eq [simp]: "ustr_of a = ustr_of b \<longleftrightarrow> a = b"
  by (simp add: ustr_of_def inj_map_eq_map[OF inj_of_char])

lemma length_ustr_of [simp]: "length (ustr_of s) = length s"
  by (simp add: ustr_of_def)

lemma dict_get_field: "field_ok kvs key ok \<Longrightarrow> ok dflt \<Longrightarrow> ok (dict_get kvs key dflt)"
  by (simp add: field_ok_def dict_get_def split: option.splits)

lemma as_text_str: "is_str v \<Longrightarrow> \<exists>s. as_text v = Some s"
  by (cases v) simp_all

lemma all_ok_strip: "list_all is_str xs \<Longrightarrow> \<exists>ys. all_ok (map py_strip xs) = Some ys"
proof (induction xs)
  case Nil
  then show ?case by simp
next
  case (Cons x xs)
  then obtain ys where "all_ok (map py_strip xs) = Some ys" by auto
  moreover from Cons.prems obtain s where "x = JStr s" by (cases x) simp_all
  ultimately show ?case by simp
qed

lemma all_ok_len: "list_all is_str xs \<Longrightarrow> \<exists>ns. all_ok (map py_len xs) = Some ns"
proof (induction xs)
  case Nil
  then show ?case by simp
next
  case (Cons x xs)
  then obtain ns where "all_ok (map py_len xs) = Some ns" by auto
  moreover from Cons.prems obtain s where "x = JStr s" by (cases x) simp_all
  ultimately show ?case by simp
qed

lemma content_bullets_ok: "is_str_list c \<Longrightarrow> \<exists>bs. content_bullets c = Some bs"
proof (cases c)
  case (JArr xs)
  assume "is_str_list c"
  with JArr have "list_all is_str xs" by simp
  then obtain ys where "all_ok (map py_strip xs) = Some ys" using all_ok_strip by blast
  with JArr show ?thesis by (simp add: content_bullets_def)
qed simp_all

lemma generate_image_printable:
  "generate_image e prompt w = (Returns url, w1) \<Longrightarrow> py_truthy url \<Longrightarrow> printable e url"
  by (auto simp add: generate_image_def requests_get_def
      split: if_splits http_result.splits option.splits json.splits)

lemma try_image_returns:
  assumes "py_truthy description \<longrightarrow> printable e description"
  shows "\<exists>img w1. try_image e inc description w = (Returns img, w1)"
proof (cases "inc \<and> py_truthy description")
  case False
  then show ?thesis by (auto simp add: try_image_def)
next
  case True
  with assms have p: "printable e description" by simp
  obtain r w1 where g: "generate_image e description w = (r, w1)"
    by (cases "generate_image e description w")
  from g p obtain url where r: "r = Returns url"
    by (cases r)
       (auto simp add: generate_image_def requests_get_def
          split: if_splits http_result.splits option.splits json.splits)
  show ?thesis
  proof (cases "py_truthy url")
    case False
    with True g r show ?thesis by (simp add: try_image_def)
  next
    case url: True
    from generate_image_printable[OF g[unfolded r] url] have "printable e url" .
    with True g r url show ?thesis
      by (simp add: try_image_def fetch_image_def split: prod.splits)
  qed
qed

lemma content_slide_ok:
  assumes "content_entry x" and "inc \<longrightarrow> description_printable e x"
  shows "\<exists>s w'. content_slide e navy inc i x w = (Some s, w')"
proof -
  from assms obtain info where x: "x = JObj info" by (cases x) simp_all
  with assms have t: "field_ok info ''title'' is_str" and c: "field_ok info ''content'' is_str_list"
    by simp_all
  from dict_get_field[OF t, of "JStr (ustr_of ''Slide'')"]
  obtain title where title: "as_text (dict_get info ''title'' (JStr (ustr_of ''Slide''))) = Some title"
    using as_text_str by auto
  from dict_get_field[OF c, of "JArr []"]
  obtain bs where bs: "content_bullets (dict_get info ''content'' (JArr [])) = Some bs"
    using content_bullets_ok by auto
  have "py_truthy (dict_get info ''image_description'' JNull) \<longrightarrow>
      printable e (dict_get info ''image_description'' JNull)" if inc
    using that assms(2) x by (simp split: if_splits)
  then have "\<exists>img w1. try_image e inc (dict_get info ''image_description'' JNull) w = (Returns img, w1)"
  proof (cases inc)
    case True
    with \<open>inc \<Longrightarrow> _\<close> show ?thesis using try_image_returns by blast
  next
    case False
    then show ?thesis by (simp add: try_image_def)
  qed
  then obtain img w1 where
    img: "try_image e inc (dict_get info ''image_description'' JNull) w = (Returns img, w1)"
    by blast
  show ?thesis
    by (simp add: content_slide_def x title bs img split: prod.splits)
qed

lemma content_slides_ok:
  "list_all content_entry xs \<Longrightarrow> inc \<longrightarrow> list_all (description_printable e) xs \<Longrightarrow>
     \<exists>ss w'. content_slides e navy inc i xs w = (Some ss, w')"
proof (induction xs arbitrary: i w)
  case Nil
  then show ?case by simp
next
  case (Cons x xs)
  from Cons.prems have "content_entry x" and "inc \<longrightarrow> description_printable e x" by simp_all
  then obtain s w1 where s: "content_slide e navy inc i x w = (Some s, w1)"
    using content_slide_ok by blast
  from Cons.prems have "list_all content_entry xs" and "inc \<longrightarrow> list_all (description_printable e) xs"
    by simp_all
  from Cons.IH[OF this] obtain ss w2 where "content_slides e navy inc (Suc i) xs w1 = (Some ss, w2)"
    by blast
  with s show ?case by simp
qed

lemma content_slides_built:
  "content_slides e navy inc i xs w = (Some ss, w') \<Longrightarrow>
     length ss = length xs \<and>
     (\<forall>k<length xs. \<exists>w0 w1. content_slide e navy inc (i + k) (xs ! k) w0 = (Some (ss ! k), w1))"
proof (induction xs arbitrary: i w ss)
  case Nil
  then show ?case by simp
next
  case (Cons x xs)
  from Cons.prems obtain s w1 rest where
    s: "content_slide e navy inc i x w = (Some s, w1)" and
    r: "content_slides e navy inc (Suc i) xs w1 = (Some rest, w')" and
    ss: "ss = s # rest"
    by (auto split: prod.splits option.splits)
  from Cons.IH[OF r] have len: "length rest = length xs"
    and each: "\<And>k. k < length xs \<Longrightarrow> \<exists>w0 w1. content_slide e navy inc (Suc i + k) (xs ! k) w0 = (Some (rest ! k), w1)"
    by auto
  show ?case
  proof (intro conjI allI impI)
    show "length ss = length (x # xs)" using len ss by simp
  next
    fix k assume k: "k < length (x # xs)"
    show "\<exists>w0 w1. content_slide e navy inc (i + k) ((x # xs) ! k) w0 = (Some (ss ! k), w1)"
    proof (cases k)
      case 0
      with s ss show ?thesis by auto
    next
      case (Suc j)
      with k have "j < length xs" by simp
      from each[OF this] Suc ss show ?thesis by simp
    qed
  qed
qed

lemma title_slide_ok: "content_tree data \<Longrightarrow> \<exists>s. title_slide navy data = Some s"
proof -
  assume "content_tree data"
  then have "field_ok data ''presentation_title'' is_str" by (simp add: content_tree_def)
  from dict_get_field[OF this, of "JStr (ustr_of ''Presentation'')"]
  obtain t where "as_text (dict_get data ''presentation_title'' (JStr (ustr_of ''Presentation''))) = Some t"
    using as_text_str by auto
  then show ?thesis by (simp add: title_slide_def)
qed

lemma toc_boxes_list: "\<exists>boxes. toc_boxes fmt (JArr items) = Some boxes"
  by (simp add: toc_boxes_def)

lemma toc_slide_ok: "content_tree data \<Longrightarrow> \<exists>s. toc_slide fmt navy data = Some s"
proof -
  assume "content_tree data"
  then have "field_ok data ''table_of_contents'' is_list" by (simp add: content_tree_def)
  from dict_get_field[OF this, of "JArr []"]
  obtain items where "dict_get data ''table_of_contents'' (JArr []) = JArr items"
    by (cases "dict_get data ''table_of_contents'' (JArr [])") simp_all
  moreover obtain boxes where "toc_boxes fmt (JArr items) = Some boxes"
    using toc_boxes_list by blast
  ultimately show ?thesis by (simp add: toc_slide_def)
qed

lemma conclusion_body_ok: "is_str_list c \<Longrightarrow> \<exists>tb. conclusion_body fmt c = Some tb"
proof (cases c)
  case (JArr xs)
  assume "is_str_list c"
  with JArr have "list_all is_str xs" by simp
  then obtain ns where "all_ok (map py_len xs) = Some ns" using all_ok_len by blast
  with JArr show ?thesis by (simp add: conclusion_body_def)
qed simp_all

lemma conclusion_slide_ok: "content_tree data \<Longrightarrow> \<exists>s. conclusion_slide fmt navy data = Some s"
proof -
  assume "content_tree data"
  then have "field_ok data ''conclusion'' content_entry" by (simp add: content_tree_def)
  from dict_get_field[OF this, of "JObj []"]
  have "content_entry (dict_get data ''conclusion'' (JObj []))" by (simp add: field_ok_def)
  then obtain c where c: "dict_get data ''conclusion'' (JObj []) = JObj c"
    and t: "field_ok c ''title'' is_str" and b: "field_ok c ''content'' is_str_list"
    by (cases "dict_get data ''conclusion'' (JObj [])") simp_all
  from dict_get_field[OF t, of "JStr (ustr_of ''Conclusion'')"]
  obtain title where title: "as_text (dict_get c ''title'' (JStr (ustr_of ''Conclusion''))) = Some title"
    using as_text_str by auto
  from dict_get_field[OF b, of "JArr []"]
  obtain tb where "conclusion_body fmt (dict_get c ''content'' (JArr [])) = Some tb"
    using conclusion_body_ok by auto
  with c title show ?thesis by (simp add: conclusion_slide_def)
qed

lemma slides_iter: "content_tree data \<Longrightarrow>
  py_iter (dict_get data ''slides'' (JArr [])) = Some (slides_of data) \<and> list_all content_entry (slides_of data)"
proof -
  assume "content_tree data"
  then have "field_ok data ''slides'' content_entries" by (simp add: content_tree_def)
  from dict_get_field[OF this, of "JArr []"]
  have "content_entries (dict_get data ''slides'' (JArr []))" by simp
  then show ?thesis
    by (cases "dict_get data ''slides'' (JArr [])") (simp_all add: slides_of_def)
qed

lemma create_ppt_file_returns:
  assumes "json_loads e raw = Parsed (JObj data)" and "content_tree data"
    and "inc \<longrightarrow> descriptions_printable e data"
  shows "\<exists>s1 s2 ss s4 w1.
    title_slide (NAVY_BLUE (int16 e) th) data = Some s1 \<and>
    toc_slide (py_str e) (NAVY_BLUE (int16 e) th) data = Some s2 \<and>
    content_slides e (NAVY_BLUE (int16 e) th) inc 0 (slides_of data) w = (Some ss, w1) \<and>
    conclusion_slide (py_str e) (NAVY_BLUE (int16 e) th) data = Some s4 \<and>
    create_ppt_file e raw inc th w =
      (Returned (Some (deck_filename (uuid4_hex e))),
       w1\<lparr>files := (files w1)(deck_filename (uuid4_hex e) \<mapsto>
         DeckFile ([s1, s2] @ ss @ [s4, closing_slide (NAVY_BLUE (int16 e) th)]))\<rparr>)"
proof -
  obtain s1 where s1: "title_slide (NAVY_BLUE (int16 e) th) data = Some s1"
    using title_slide_ok[OF assms(2)] by blast
  obtain s2 where s2: "toc_slide (py_str e) (NAVY_BLUE (int16 e) th) data = Some s2"
    using toc_slide_ok[OF assms(2)] by blast
  note it = slides_iter[OF assms(2)]
  have "inc \<longrightarrow> list_all (description_printable e) (slides_of data)"
    using assms(3) by (simp add: descriptions_printable_def)
  with it have "\<exists>ss w1. content_slides e (NAVY_BLUE (int16 e) th) inc 0 (slides_of data) w = (Some ss, w1)"
    by (intro content_slides_ok) simp_all
  then obtain ss w1 where ss: "content_slides e (NAVY_BLUE (int16 e) th) inc 0 (slides_of data) w = (Some ss, w1)"
    by blast
  obtain s4 where s4: "conclusion_slide (py_str e) (NAVY_BLUE (int16 e) th) data = Some s4"
    using conclusion_slide_ok[OF assms(2)] by blast
  show ?thesis
    using assms(1) s1 s2 it ss s4 by (simp add: create_ppt_file_def)
qed

section \<open>The layout of the table of contents\<close>

lemma toc_mid_ceiling: "toc_mid n = nat \<lceil>real n / 2\<rceil>"
  unfolding toc_mid_def by linarith

lemma toc_rest_floor: "n - toc_mid n = nat \<lfloor>real n / 2\<rfloor>"
  unfolding toc_mid_def by linarith

lemma toc_paragraph_text: "par_text (toc_paragraph fmt sz left x) = bullet_glyph @ format_item fmt x"
  by (simp add: toc_paragraph_def new_paragraph_def)

text \<open>
  Claim C2. With at most four items the slide has one text box, centred on the slide of
  width 10, holding every item in order. With more than four it has exactly two, the
  first with the first \<open>ceil(n / 2)\<close> items and the second with the remaining
  \<open>floor(n / 2)\<close>, in order.
\<close>

theorem C2_toc_columns:
  "(length items \<le> 4 \<longrightarrow>
      (\<exists>col. toc_boxes fmt (JArr items) = Some [TextBox col] \<and>
         box_left col = 2 \<and> box_width col = 6 \<and> box_left col + box_width col / 2 = 10 / 2 \<and>
         map par_text (tl (paragraphs col)) = map (\<lambda>x. bullet_glyph @ format_item fmt x) items)) \<and>
   (length items > 4 \<longrightarrow>
      (\<exists>col1 col2. toc_boxes fmt (JArr items) = Some [TextBox col1, TextBox col2] \<and>
         map par_text (tl (paragraphs col1)) =
           map (\<lambda>x. bullet_glyph @ format_item fmt x) (take (nat \<lceil>real (length items) / 2\<rceil>) items) \<and>
         map par_text (tl (paragraphs col2)) =
           map (\<lambda>x. bullet_glyph @ format_item fmt x) (drop (nat \<lceil>real (length items) / 2\<rceil>) items) \<and>
         length (tl (paragraphs col1)) = nat \<lceil>real (length items) / 2\<rceil> \<and>
         length (tl (paragraphs col2)) = nat \<lfloor>real (length items) / 2\<rfloor>))"
proof (intro conjI impI)
  assume "length items \<le> 4"
  then show "\<exists>col. toc_boxes fmt (JArr items) = Some [TextBox col] \<and>
         box_left col = 2 \<and> box_width col = 6 \<and> box_left col + box_width col / 2 = 10 / 2 \<and>
         map par_text (tl (paragraphs col)) = map (\<lambda>x. bullet_glyph @ format_item fmt x) items"
    by (simp add: toc_boxes_def add_textbox_def toc_paragraph_text comp_def)
next
  let ?n = "length items"
  assume big: "4 < ?n"
  have mid: "toc_mid ?n \<le> ?n" by (simp add: toc_mid_def)
  have l1: "length (take (toc_mid ?n) items) = nat \<lceil>real ?n / 2\<rceil>"
    using mid by (simp add: toc_mid_ceiling)
  have l2: "length (drop (toc_mid ?n) items) = nat \<lfloor>real ?n / 2\<rfloor>"
    by (simp add: toc_rest_floor)
  show "\<exists>col1 col2. toc_boxes fmt (JArr items) = Some [TextBox col1, TextBox col2] \<and>
         map par_text (tl (paragraphs col1)) =
           map (\<lambda>x. bullet_glyph @ format_item fmt x) (take (nat \<lceil>real ?n / 2\<rceil>) items) \<and>
         map par_text (tl (paragraphs col2)) =
           map (\<lambda>x. bullet_glyph @ format_item fmt x) (drop (nat \<lceil>real ?n / 2\<rceil>) items) \<and>
         length (tl (paragraphs col1)) = nat \<lceil>real ?n / 2\<rceil> \<and>
         length (tl (paragraphs col2)) = nat \<lfloor>real ?n / 2\<rfloor>"
    using big l1 l2
    by (simp add: toc_boxes_def add_textbox_def toc_paragraph_text comp_def
        toc_mid_ceiling[symmetric] del: length_take length_drop)
qed

theorem C2_toc_columns_witness:
  "(\<exists>col. toc_boxes (\<lambda>v. []) (JArr [JStr [97], JStr [98], JStr [99]]) = Some [TextBox col] \<and>
      box_left col = 2 \<and> box_width col = 6 \<and>
      map par_text (tl (paragraphs col)) = [[8226, 32, 97], [8226, 32, 98], [8226, 32, 99]]) \<and>
   (\<exists>col1 col2.
      toc_boxes (\<lambda>v. []) (JArr [JStr [97], JStr [98], JStr [99], JStr [100], JStr [101]]) =
        Some [TextBox col1, TextBox col2] \<and>
      map par_text (tl (paragraphs col1)) = [[8226, 32, 97], [8226, 32, 98], [8226, 32, 99]] \<and>
      map par_text (tl (paragraphs col2)) = [[8226, 32, 100], [8226, 32, 101]])"
proof -
  have three: "length [JStr [97], JStr [98], JStr [99]] \<le> 4" by simp
  have five: "length [JStr [97], JStr [98], JStr [99], JStr [100], JStr [101]] > 4" by simp
  have c: "nat \<lceil>real (length [JStr [97], JStr [98], JStr [99], JStr [100], JStr [101]]) / 2\<rceil> = 3"
    by simp
  from C2_toc_columns[of "[JStr [97], JStr [98], JStr [99]]" "\<lambda>v. []"] three
  have a: "\<exists>col. toc_boxes (\<lambda>v. []) (JArr [JStr [97], JStr [98], JStr [99]]) = Some [TextBox col] \<and>
      box_left col = 2 \<and> box_width col = 6 \<and>
      map par_text (tl (paragraphs col)) = [[8226, 32, 97], [8226, 32, 98], [8226, 32, 99]]"
    by (auto simp add: bullet_glyph_def format_item_def)
  from C2_toc_columns[of "[JStr [97], JStr [98], JStr [99], JStr [100], JStr [101]]" "\<lambda>v. []"] five
  have b: "\<exists>col1 col2.
      toc_boxes (\<lambda>v. []) (JArr [JStr [97], JStr [98], JStr [99], JStr [100], JStr [101]]) =
        Some [TextBox col1, TextBox col2] \<and>
      map par_text (tl (paragraphs col1)) = [[8226, 32, 97], [8226, 32, 98], [8226, 32, 99]] \<and>
      map par_text (tl (paragraphs col2)) = [[8226, 32, 100], [8226, 32, 101]]"
    unfolding c by (auto simp add: bullet_glyph_def format_item_def)
  from a b show ?thesis by blast
qed

section \<open>The sizing of the table of contents\<close>

lemma toc_box_paragraphs:
  assumes "toc_boxes fmt toc_items = Some boxes" and "py_len toc_items = Some n"
    and "TextBox col \<in> set boxes" and "p \<in> set (tl (paragraphs col))"
  shows "font_size p = Some (fst (toc_sizing n)) \<and> space_after p = Some (snd (toc_sizing n))"
  using assms
  by (auto simp add: toc_boxes_def add_textbox_def toc_paragraph_def new_paragraph_def
      split: option.splits if_splits prod.splits)

lemma toc_boxes_replicate:
  "0 < n \<Longrightarrow> \<exists>boxes col p. toc_boxes (\<lambda>v. []) (JArr (replicate n (JStr [97]))) = Some boxes \<and>
      TextBox col \<in> set boxes \<and> p \<in> set (tl (paragraphs col))"
proof (cases "4 < n")
  case True
  have "0 < toc_mid n" and "min (toc_mid n) n = toc_mid n"
    using True by (simp_all add: toc_mid_def)
  then show ?thesis using True
    apply (simp add: toc_boxes_def add_textbox_def)
    apply (rule exI[of _ "(add_textbox 1 2 4 3)\<lparr>word_wrap := True,
             paragraphs := new_paragraph # map (toc_paragraph (\<lambda>v. []) (toc_sizing n) False) (replicate (toc_mid n) (JStr [97]))\<rparr>"])
    apply (simp add: add_textbox_def)
    done
next
  case False
  assume "0 < n"
  then show ?thesis using False
    by (simp add: toc_boxes_def add_textbox_def)
qed

text \<open>
  Claim C8, as the code has it. Every item of the table of contents is set in the size
  and spacing its count selects: 14 and 8 above eight items, 16 and 12 for six to eight,
  20 and 14 for five or fewer.
\<close>

theorem C8_toc_sizing:
  assumes "toc_boxes fmt toc_items = Some boxes" and "py_len toc_items = Some n"
    and "TextBox col \<in> set boxes" and "p \<in> set (tl (paragraphs col))"
  shows "(n > 8 \<longrightarrow> font_size p = Some 14 \<and> space_after p = Some 8) \<and>
         (6 \<le> n \<and> n \<le> 8 \<longrightarrow> font_size p = Some 16 \<and> space_after p = Some 12) \<and>
         (n \<le> 5 \<longrightarrow> font_size p = Some 20 \<and> space_after p = Some 14)"
  using toc_box_paragraphs[OF assms] by (auto simp add: toc_sizing_def)

theorem C8_toc_sizing_witness:
  "(\<exists>boxes col p. toc_boxes (\<lambda>v. []) (JArr (replicate 9 (JStr [97]))) = Some boxes \<and>
      TextBox col \<in> set boxes \<and> p \<in> set (tl (paragraphs col)) \<and>
      font_size p = Some 14 \<and> space_after p = Some 8) \<and>
   (\<exists>boxes col p. toc_boxes (\<lambda>v. []) (JArr (replicate 6 (JStr [97]))) = Some boxes \<and>
      TextBox col \<in> set boxes \<and> p \<in> set (tl (paragraphs col)) \<and>
      font_size p = Some 16 \<and> space_after p = Some 12) \<and>
   (\<exists>boxes col p. toc_boxes (\<lambda>v. []) (JArr (replicate 3 (JStr [97]))) = Some boxes \<and>
      TextBox col \<in> set boxes \<and> p \<in> set (tl (paragraphs col)) \<and>
      font_size p = Some 20 \<and> space_after p = Some 14)"
proof -
  have len: "py_len (JArr (replicate n (JStr [97]))) = Some n" for n by simp
  obtain b9 c9 p9 where
    h9: "toc_boxes (\<lambda>v. []) (JArr (replicate 9 (JStr [97]))) = Some b9"
      "TextBox c9 \<in> set b9" "p9 \<in> set (tl (paragraphs c9))"
    using toc_boxes_replicate[of 9] by auto
  obtain b6 c6 p6 where
    h6: "toc_boxes (\<lambda>v. []) (JArr (replicate 6 (JStr [97]))) = Some b6"
      "TextBox c6 \<in> set b6" "p6 \<in> set (tl (paragraphs c6))"
    using toc_boxes_replicate[of 6] by auto
  obtain b3 c3 p3 where
    h3: "toc_boxes (\<lambda>v. []) (JArr (replicate 3 (JStr [97]))) = Some b3"
      "TextBox c3 \<in> set b3" "p3 \<in> set (tl (paragraphs c3))"
    using toc_boxes_replicate[of 3] by auto
  from C8_toc_sizing[OF h9(1) len h9(2) h9(3)]
  have s9: "font_size p9 = Some 14 \<and> space_after p9 = Some 8" by simp
  from C8_toc_sizing[OF h6(1) len h6(2) h6(3)]
  have s6: "font_size p6 = Some 16 \<and> space_after p6 = Some 12" by simp
  from C8_toc_sizing[OF h3(1) len h3(2) h3(3)]
  have s3: "font_size p3 = Some 20 \<and> space_after p3 = Some 14" by simp
  show ?thesis
  proof (intro conjI)
    show "\<exists>boxes col p. toc_boxes (\<lambda>v. []) (JArr (replicate 9 (JStr [97]))) = Some boxes \<and>
      TextBox col \<in> set boxes \<and> p \<in> set (tl (paragraphs col)) \<and>
      font_size p = Some 14 \<and> space_after p = Some 8"
      using h9 s9 by (intro exI[of _ b9] exI[of _ c9] exI[of _ p9]) simp
    show "\<exists>boxes col p. toc_boxes (\<lambda>v. []) (JArr (replicate 6 (JStr [97]))) = Some boxes \<and>
      TextBox col \<in> set boxes \<and> p \<in> set (tl (paragraphs col)) \<and>
      font_size p = Some 16 \<and> space_after p = Some 12"
      using h6 s6 by (intro exI[of _ b6] exI[of _ c6] exI[of _ p6]) simp
    show "\<exists>boxes col p. toc_boxes (\<lambda>v. []) (JArr (replicate 3 (JStr [97]))) = Some boxes \<and>
      TextBox col \<in> set boxes \<and> p \<in> set (tl (paragraphs col)) \<and>
      font_size p = Some 20 \<and> space_after p = Some 14"
      using h3 s3 by (intro exI[of _ b3] exI[of _ c3] exI[of _ p3]) simp
  qed
qed

text \<open>
  The claim puts five items in the band of 16 and 12. The code tests \<open>item_count > 5\<close>:
  a table of five items is set in 20 and 14.
\<close>

theorem C8_five_items_counterexample:
  "py_len (JArr (replicate 5 (JStr [97]))) = Some 5 \<and>
   toc_boxes (\<lambda>v. []) (JArr (replicate 5 (JStr [97]))) =
     Some [TextBox ((add_textbox 1 2 4 3)\<lparr>word_wrap := True,
             paragraphs := new_paragraph # replicate 3 (toc_paragraph (\<lambda>v. []) (20, 14) False (JStr [97]))\<rparr>),
           TextBox ((add_textbox 5.5 2 4 3)\<lparr>word_wrap := True,
             paragraphs := new_paragraph # replicate 2 (toc_paragraph (\<lambda>v. []) (20, 14) False (JStr [97]))\<rparr>)] \<and>
   font_size (toc_paragraph (\<lambda>v. []) (20, 14) False (JStr [97])) = Some 20 \<and>
   space_after (toc_paragraph (\<lambda>v. []) (20, 14) False (JStr [97])) = Some 14 \<and>
   toc_sizing 5 \<noteq> (16, 12)"
  by (simp add: toc_boxes_def toc_mid_def toc_sizing_def toc_paragraph_def new_paragraph_def)

section \<open>The body of a content slide\<close>

lemma content_slide_shapes:
  assumes "content_slide e navy inc i (JObj info) w = (Some s, w')"
  shows "\<exists>title bullets img_data w1.
     as_text (dict_get info ''title'' (JStr (ustr_of ''Slide''))) = Some title \<and>
     try_image e inc (dict_get info ''image_description'' JNull) w = (Returns img_data, w1) \<and>
     content_bullets (dict_get info ''content'' (JArr [])) = Some bullets \<and>
     s = \<lparr>shapes = title_shapes navy title @ [TextBox (content_shape (img_data \<noteq> None) bullets)]
                      @ fst (place_image (picture_ok e) navy i img_data w1),
          background = None\<rparr> \<and>
     w' = snd (place_image (picture_ok e) navy i img_data w1)"
  using assms by (auto simp add: content_slide_def split: option.splits prod.splits result.splits)

lemma content_shape_paragraphs:
  "paragraphs (content_shape has_image bullets) =
     new_paragraph # map (bullet_paragraph (body_sizing (total_chars bullets))) bullets"
  by (simp add: content_shape_def add_textbox_def)

lemma bullet_paragraph_fields:
  "par_text (bullet_paragraph sz b) = bullet_glyph @ b"
  "font_size (bullet_paragraph sz b) = Some (fst sz)"
  "space_before (bullet_paragraph sz b) = Some (snd sz)"
  "space_after (bullet_paragraph sz b) = Some (snd sz)"
  by (simp_all add: bullet_paragraph_def new_paragraph_def)

lemma body_sizing_antimono: "m \<le> n \<Longrightarrow> fst (body_sizing n) \<le> fst (body_sizing m)"
  by (simp add: body_sizing_def)

text \<open>
  Claim C3, as the code has it. The body of a content slide holds one paragraph for each
  bullet that is left after stripping. Their font size and spacing are a function of the
  summed length of these bullets alone: 12 and 4 above 600 characters, 14 and 6 from 401
  to 600, 16 and 8 up to 400. The font size never grows with the summed length.
\<close>

theorem C3_body_sizing:
  assumes "content_slide e navy inc i (JObj info) w = (Some s, w')"
  shows "\<exists>bullets body.
     content_bullets (dict_get info ''content'' (JArr [])) = Some bullets \<and>
     shapes s ! 2 = TextBox body \<and>
     map par_text (tl (paragraphs body)) = map (\<lambda>b. bullet_glyph @ b) bullets \<and>
     (\<forall>p \<in> set (tl (paragraphs body)).
        font_size p = Some (fst (body_sizing (total_chars bullets))) \<and>
        space_before p = Some (snd (body_sizing (total_chars bullets))) \<and>
        space_after p = Some (snd (body_sizing (total_chars bullets)))) \<and>
     (total_chars bullets > 600 \<longrightarrow> body_sizing (total_chars bullets) = (12, 4)) \<and>
     (400 < total_chars bullets \<and> total_chars bullets \<le> 600 \<longrightarrow>
        body_sizing (total_chars bullets) = (14, 6)) \<and>
     (total_chars bullets \<le> 400 \<longrightarrow> body_sizing (total_chars bullets) = (16, 8)) \<and>
     (\<forall>m n. m \<le> n \<longrightarrow> fst (body_sizing n) \<le> fst (body_sizing m))"
proof -
  from content_slide_shapes[OF assms] obtain title bullets img_data w1 where
    b: "content_bullets (dict_get info ''content'' (JArr [])) = Some bullets" and
    s: "s = \<lparr>shapes = title_shapes navy title @ [TextBox (content_shape (img_data \<noteq> None) bullets)]
                      @ fst (place_image (picture_ok e) navy i img_data w1),
          background = None\<rparr>"
    by blast
  let ?body = "content_shape (img_data \<noteq> None) bullets"
  have at2: "shapes s ! 2 = TextBox ?body"
    by (simp add: s title_shapes_def)
  have texts: "map par_text (tl (paragraphs ?body)) = map (\<lambda>b. bullet_glyph @ b) bullets"
    by (simp add: content_shape_paragraphs bullet_paragraph_fields comp_def)
  have sizes: "\<forall>p \<in> set (tl (paragraphs ?body)).
        font_size p = Some (fst (body_sizing (total_chars bullets))) \<and>
        space_before p = Some (snd (body_sizing (total_chars bullets))) \<and>
        space_after p = Some (snd (body_sizing (total_chars bullets)))"
    by (auto simp add: content_shape_paragraphs bullet_paragraph_fields)
  have bands: "(total_chars bullets > 600 \<longrightarrow> body_sizing (total_chars bullets) = (12, 4)) \<and>
     (400 < total_chars bullets \<and> total_chars bullets \<le> 600 \<longrightarrow>
        body_sizing (total_chars bullets) = (14, 6)) \<and>
     (total_chars bullets \<le> 400 \<longrightarrow> body_sizing (total_chars bullets) = (16, 8))"
    by (simp add: body_sizing_def)
  have mono: "\<forall>m n. m \<le> n \<longrightarrow> fst (body_sizing n) \<le> fst (body_sizing m)"
    using body_sizing_antimono by blast
  from b at2 texts sizes bands mono show ?thesis by blast
qed


lemma dropWhile_replicate_keep: "\<not> P c \<Longrightarrow> dropWhile P (replicate n c) = replicate n c"
  by (cases n) simp_all

lemma strip_replicate: "\<not> py_isspace c \<Longrightarrow> strip (replicate n c) = replicate n c"
  by (simp add: strip_def dropWhile_replicate_keep)

lemma one_bullet_slide:
  "0 < n \<Longrightarrow>
   content_slide e navy False i (JObj [(ustr_of ''content'', JArr [JStr (replicate n 97)])]) w =
     (Some \<lparr>shapes = title_shapes navy (ustr_of ''Slide'') @ [TextBox (content_shape False [replicate n 97])],
            background = None\<rparr>, w)"
  by (simp add: content_slide_def dict_get_def try_image_def content_bullets_def
      strip_replicate py_isspace_def place_image_def)

lemma one_bullet: "0 < n \<Longrightarrow>
   content_bullets (dict_get [(ustr_of ''content'', JArr [JStr (replicate n 97)])] ''content'' (JArr [])) =
     Some [replicate n 97]"
  by (simp add: dict_get_def content_bullets_def strip_replicate py_isspace_def)

theorem C3_body_sizing_witness:
  "(\<exists>s w'. content_slide demo_env (0, 51, 102) False 0
        (JObj [(ustr_of ''content'', JArr [JStr (replicate 601 97)])]) world_jpeg = (Some s, w')) \<and>
   body_sizing (total_chars [replicate 601 97]) = (12, 4) \<and>
   body_sizing (total_chars [replicate 500 97]) = (14, 6) \<and>
   body_sizing (total_chars [replicate 400 97]) = (16, 8) \<and>
   fst (body_sizing 700) \<le> fst (body_sizing 300)"
proof -
  have r601: "content_slide demo_env (0, 51, 102) False 0
        (JObj [(ustr_of ''content'', JArr [JStr (replicate 601 97)])]) world_jpeg =
     (Some \<lparr>shapes = title_shapes (0, 51, 102) (ustr_of ''Slide'') @ [TextBox (content_shape False [replicate 601 97])],
            background = None\<rparr>, world_jpeg)"
    by (rule one_bullet_slide) simp
  have r500: "content_slide demo_env (0, 51, 102) False 0
        (JObj [(ustr_of ''content'', JArr [JStr (replicate 500 97)])]) world_jpeg =
     (Some \<lparr>shapes = title_shapes (0, 51, 102) (ustr_of ''Slide'') @ [TextBox (content_shape False [replicate 500 97])],
            background = None\<rparr>, world_jpeg)"
    by (rule one_bullet_slide) simp
  have r400: "content_slide demo_env (0, 51, 102) False 0
        (JObj [(ustr_of ''content'', JArr [JStr (replicate 400 97)])]) world_jpeg =
     (Some \<lparr>shapes = title_shapes (0, 51, 102) (ustr_of ''Slide'') @ [TextBox (content_shape False [replicate 400 97])],
            background = None\<rparr>, world_jpeg)"
    by (rule one_bullet_slide) simp
  have a: "body_sizing (total_chars [replicate 601 97]) = (12, 4)"
  proof -
    from C3_body_sizing[OF r601] obtain bullets where
      "content_bullets (dict_get [(ustr_of ''content'', JArr [JStr (replicate 601 97)])] ''content'' (JArr [])) = Some bullets"
      and band: "total_chars bullets > 600 \<longrightarrow> body_sizing (total_chars bullets) = (12, 4)"
      by blast
    then have "bullets = [replicate 601 97]" by (simp add: one_bullet)
    with band show ?thesis by (simp add: total_chars_def)
  qed
  have b: "body_sizing (total_chars [replicate 500 97]) = (14, 6)"
  proof -
    from C3_body_sizing[OF r500] obtain bullets where
      "content_bullets (dict_get [(ustr_of ''content'', JArr [JStr (replicate 500 97)])] ''content'' (JArr [])) = Some bullets"
      and band: "400 < total_chars bullets \<and> total_chars bullets \<le> 600 \<longrightarrow>
        body_sizing (total_chars bullets) = (14, 6)"
      by blast
    then have "bullets = [replicate 500 97]" by (simp add: one_bullet)
    with band show ?thesis by (simp add: total_chars_def)
  qed
  have c: "body_sizing (total_chars [replicate 400 97]) = (16, 8)"
  proof -
    from C3_body_sizing[OF r400] obtain bullets where
      "content_bullets (dict_get [(ustr_of ''content'', JArr [JStr (replicate 400 97)])] ''content'' (JArr [])) = Some bullets"
      and band: "total_chars bullets \<le> 400 \<longrightarrow> body_sizing (total_chars bullets) = (16, 8)"
      and mono: "\<forall>m n. m \<le> n \<longrightarrow> fst (body_sizing n) \<le> fst (body_sizing m)"
      by blast
    then have "bullets = [replicate 400 97]" by (simp add: one_bullet)
    with band show ?thesis by (simp add: total_chars_def)
  qed
  have d: "fst (body_sizing 700) \<le> fst (body_sizing 300)"
  proof -
    from C3_body_sizing[OF r400] have "\<forall>m n. m \<le> n \<longrightarrow> fst (body_sizing n) \<le> fst (body_sizing m)"
      by blast
    then have "(300::nat) \<le> 700 \<longrightarrow> fst (body_sizing 700) \<le> fst (body_sizing 300)" by blast
    then show ?thesis by simp
  qed
  from r601 a b c d show ?thesis by simp
qed

text \<open>
  The claim puts a summed length of exactly 400 in the band of 14 and 6. The code tests
  \<open>total_chars > 400\<close>: a slide whose one bullet has 400 characters is set in 16 and 8.
\<close>

theorem C3_four_hundred_counterexample:
  "content_slide demo_env (0, 51, 102) False 0
      (JObj [(ustr_of ''content'', JArr [JStr (replicate 400 97)])]) world_jpeg =
     (Some \<lparr>shapes = title_shapes (0, 51, 102) (ustr_of ''Slide'') @
        [TextBox ((add_textbox 0.5 1.4 9 3.9)\<lparr>word_wrap := True, anchor_top := True,
           paragraphs := [new_paragraph, bullet_paragraph (16, 8) (replicate 400 97)]\<rparr>)],
        background = None\<rparr>, world_jpeg) \<and>
   total_chars [replicate 400 97] = 400 \<and>
   font_size (bullet_paragraph (16, 8) (replicate 400 97)) = Some 16 \<and>
   space_after (bullet_paragraph (16, 8) (replicate 400 97)) = Some 8 \<and>
   body_sizing 400 \<noteq> (14, 6)"
  by (simp add: one_bullet_slide content_shape_def content_width_def total_chars_def body_sizing_def
      bullet_paragraph_fields)

section \<open>Images: the width of the body and the picture\<close>

lemma ustr_of_empty [simp]: "ustr_of s = [] \<longleftrightarrow> s = []"
  by (simp add: ustr_of_def)

lemma fetch_loop_3:
  "fetch_loop url 0 3 w =
     (if attempt_failed (net w (length (requests w))) then
        if attempt_failed (net w (length (requests w) + 1)) then
          if attempt_failed (net w (length (requests w) + 2)) then
            (None, w\<lparr>requests := requests w @ [Download url, Download url, Download url],
                      sleeps := sleeps w @ [1, 2, 3]\<rparr>)
          else (case net w (length (requests w) + 2) of
                  Response st c b \<Rightarrow>
                    (Some c, w\<lparr>requests := requests w @ [Download url, Download url, Download url],
                                sleeps := sleeps w @ [1, 2]\<rparr>))
        else (case net w (length (requests w) + 1) of
                Response st c b \<Rightarrow>
                  (Some c, w\<lparr>requests := requests w @ [Download url, Download url],
                              sleeps := sleeps w @ [1]\<rparr>))
      else (case net w (length (requests w)) of
              Response st c b \<Rightarrow> (Some c, w\<lparr>requests := requests w @ [Download url]\<rparr>)))"
  by (cases "net w (length (requests w))"; cases "net w (length (requests w) + 1)";
      cases "net w (length (requests w) + 2)")
     (simp_all add: numeral_3_eq_3 requests_get_def sleep_def)

lemma demo_printable: "printable demo_env (JStr s) \<longleftrightarrow> list_all (\<lambda>c. c < 55296 \<or> 57343 < c) s"
  by (simp add: printable_def format_item_def demo_env_def)

lemma demo_printable_road: "printable demo_env (JStr (ustr_of ''road''))"
  by (simp add: demo_printable ustr_of_def)

lemma demo_printable_url: "printable demo_env (JStr (ustr_of ''https://img''))"
  by (simp add: demo_printable ustr_of_def)

lemma demo_key: "pexels_api_key demo_env = Some (ustr_of ''key'')"
  by (simp add: demo_env_def)

lemma search_found:
  "net w (length (requests w)) = demo_found \<Longrightarrow> printable demo_env prompt \<Longrightarrow>
   generate_image demo_env prompt w =
     (Returns (JStr (ustr_of ''https://img'')), w\<lparr>requests := requests w @ [Search prompt]\<rparr>)"
  by (simp add: generate_image_def demo_key requests_get_def demo_found_def
      dict_get_def landscape_url_def demo_printable_url)

lemma image_jpeg:
  "try_image demo_env True (JStr (ustr_of ''road'')) world_jpeg =
     (Returns (Some [255, 216, 255]),
      world_jpeg\<lparr>requests := [Search (JStr (ustr_of ''road'')), Download (JStr (ustr_of ''https://img''))]\<rparr>)"
  by (simp add: try_image_def search_found fetch_image_def fetch_loop_3 world_jpeg_def
      demo_printable_road demo_printable_url)

lemma image_page:
  "try_image demo_env True (JStr (ustr_of ''road'')) world_page =
     (Returns (Some [60, 104, 49, 62]),
      world_page\<lparr>requests := [Search (JStr (ustr_of ''road'')), Download (JStr (ustr_of ''https://img''))]\<rparr>)"
  by (simp add: try_image_def search_found fetch_image_def fetch_loop_3 world_page_def
      demo_printable_road demo_printable_url)

lemma image_down:
  "try_image demo_env True (JStr (ustr_of ''road'')) world_down =
     (Returns (None),
      world_down\<lparr>requests := [Search (JStr (ustr_of ''road'')), Download (JStr (ustr_of ''https://img'')),
                    Download (JStr (ustr_of ''https://img'')), Download (JStr (ustr_of ''https://img''))],
                  sleeps := [1, 2, 3]\<rparr>)"
  by (simp add: try_image_def search_found fetch_image_def fetch_loop_3 world_down_def
      demo_printable_road demo_printable_url)

lemma strip_walk: "strip (ustr_of '' walk '') = ustr_of ''walk''"
  by (simp add: strip_def ustr_of_def py_isspace_def)

lemma strip_blank: "strip (ustr_of ''  '') = []"
  by (simp add: strip_def ustr_of_def py_isspace_def)

lemma strip_trail: "strip (ustr_of ''trail'') = ustr_of ''trail''"
  by (simp add: strip_def ustr_of_def py_isspace_def)

lemma demo_bullets:
  "content_bullets (JArr [JStr (ustr_of '' walk ''), JStr (ustr_of ''  ''), JStr (ustr_of ''trail'')]) =
     Some [ustr_of ''walk'', ustr_of ''trail'']"
  by (simp add: content_bullets_def strip_walk strip_blank strip_trail)

lemma demo_accepts: "picture_ok demo_env b \<longleftrightarrow> take 2 b = [255, 216]"
  by (simp add: demo_env_def)

lemma slide_page:
  "content_slide demo_env navy True 0 demo_slide world_page =
     (Some \<lparr>shapes = title_shapes navy (ustr_of ''Paths'') @
               [TextBox (content_shape True [ustr_of ''walk'', ustr_of ''trail''])],
            background = None\<rparr>,
      world_page\<lparr>requests := [Search (JStr (ustr_of ''road'')), Download (JStr (ustr_of ''https://img''))],
                  files := (files world_page)(temp_filename 0 \<mapsto> ImageFile [60, 104, 49, 62])\<rparr>)"
  by (simp add: content_slide_def demo_slide_def dict_get_def image_page demo_bullets place_image_def
      demo_accepts)


lemma slide_jpeg:
  "content_slide demo_env navy True 0 demo_slide world_jpeg =
     (Some \<lparr>shapes = title_shapes navy (ustr_of ''Paths'') @
               [TextBox (content_shape True [ustr_of ''walk'', ustr_of ''trail'']),
                Picture [255, 216, 255] 6 2 3.5 navy 2],
            background = None\<rparr>,
      world_jpeg\<lparr>requests := [Search (JStr (ustr_of ''road'')), Download (JStr (ustr_of ''https://img''))],
                  files := (files world_jpeg)(temp_filename 0 := None)\<rparr>)"
  by (simp add: content_slide_def demo_slide_def dict_get_def image_jpeg demo_bullets place_image_def
      demo_accepts)

lemma slide_down:
  "content_slide demo_env navy True 0 demo_slide world_down =
     (Some \<lparr>shapes = title_shapes navy (ustr_of ''Paths'') @
               [TextBox (content_shape False [ustr_of ''walk'', ustr_of ''trail''])],
            background = None\<rparr>,
      world_down\<lparr>requests := [Search (JStr (ustr_of ''road'')), Download (JStr (ustr_of ''https://img'')),
                    Download (JStr (ustr_of ''https://img'')), Download (JStr (ustr_of ''https://img''))],
                  sleeps := [1, 2, 3]\<rparr>)"
  by (simp add: content_slide_def demo_slide_def dict_get_def image_down demo_bullets place_image_def)

lemma demo_description:
  "dict_get [(ustr_of ''title'', JStr (ustr_of ''Paths'')),
           (ustr_of ''content'', JArr [JStr (ustr_of '' walk ''), JStr (ustr_of ''  ''),
                                        JStr (ustr_of ''trail'')]),
           (ustr_of ''image_description'', JStr (ustr_of ''road''))] ''image_description'' JNull =
   JStr (ustr_of ''road'')"
  by (simp add: dict_get_def)

lemma title_shapes_no_picture: "filter is_picture (title_shapes navy t) = []"
  by (simp add: title_shapes_def)

lemma content_shape_geometry:
  "box_left (content_shape has_image bullets) = 0.5"
  "box_width (content_shape has_image bullets) = (if has_image then 5 else 9)"
  by (simp_all add: content_shape_def add_textbox_def content_width_def)

text \<open>
  Claim C4, as the code has it. The width of the body follows the bytes, not the query:
  without bytes the body is 9 wide and the slide has no picture; with bytes it is 5 wide.
  With bytes the slide has one picture, at left 6, top 2 and width 3.5, to the right of
  the body, when \<open>add_picture\<close> accepts the bytes; when it raises, the handler absorbs
  the exception and the slide has no picture. Without a truthy query, or with
  \<open>include_images\<close> false, there are no bytes.
\<close>

theorem C4_image_layout:
  assumes "content_slide e navy inc i (JObj info) w = (Some s, w')"
    and "try_image e inc (dict_get info ''image_description'' JNull) w = (Returns img_data, w1)"
  shows "\<exists>body. shapes s ! 2 = TextBox body \<and> box_left body = 0.5 \<and>
     (img_data = None \<longrightarrow> box_width body = 9 \<and> filter is_picture (shapes s) = []) \<and>
     (\<forall>b. img_data = Some b \<longrightarrow>
        box_width body = 5 \<and>
        (picture_ok e b \<longrightarrow>
           filter is_picture (shapes s) = [Picture b 6 2 3.5 navy 2] \<and>
           last (shapes s) = Picture b 6 2 3.5 navy 2 \<and>
           box_left body + box_width body \<le> 6) \<and>
        (\<not> picture_ok e b \<longrightarrow> filter is_picture (shapes s) = [])) \<and>
     (\<not> inc \<or> \<not> py_truthy (dict_get info ''image_description'' JNull) \<longrightarrow> img_data = None)"
proof -
  from content_slide_shapes[OF assms(1)] assms(2) obtain title bullets where
    s: "s = \<lparr>shapes = title_shapes navy title @ [TextBox (content_shape (img_data \<noteq> None) bullets)]
                      @ fst (place_image (picture_ok e) navy i img_data w1),
          background = None\<rparr>"
    by auto
  let ?body = "content_shape (img_data \<noteq> None) bullets"
  have at2: "shapes s ! 2 = TextBox ?body" by (simp add: s title_shapes_def)
  have none: "img_data = None \<longrightarrow> box_width ?body = 9 \<and> filter is_picture (shapes s) = []"
    by (simp add: s content_shape_geometry title_shapes_no_picture place_image_def)
  have some: "\<forall>b. img_data = Some b \<longrightarrow>
        box_width ?body = 5 \<and>
        (picture_ok e b \<longrightarrow>
           filter is_picture (shapes s) = [Picture b 6 2 3.5 navy 2] \<and>
           last (shapes s) = Picture b 6 2 3.5 navy 2 \<and>
           box_left ?body + box_width ?body \<le> 6) \<and>
        (\<not> picture_ok e b \<longrightarrow> filter is_picture (shapes s) = [])"
    by (simp add: s content_shape_geometry title_shapes_no_picture place_image_def)
  have query: "\<not> inc \<or> \<not> py_truthy (dict_get info ''image_description'' JNull) \<longrightarrow> img_data = None"
    using assms(2) by (auto simp add: try_image_def)
  from at2 none some query show ?thesis
    by (intro exI[of _ ?body]) (simp add: content_shape_geometry)
qed


theorem C4_image_layout_witness:
  "(\<exists>s w'. content_slide demo_env (0, 51, 102) True 0 demo_slide world_jpeg = (Some s, w') \<and>
      filter is_picture (shapes s) = [Picture [255, 216, 255] 6 2 3.5 (0, 51, 102) 2] \<and>
      (\<exists>body. shapes s ! 2 = TextBox body \<and> box_width body = 5)) \<and>
   (\<exists>s w'. content_slide demo_env (0, 51, 102) True 0 demo_slide world_page = (Some s, w') \<and>
      filter is_picture (shapes s) = [] \<and>
      (\<exists>body. shapes s ! 2 = TextBox body \<and> box_width body = 5)) \<and>
   (\<exists>s w'. content_slide demo_env (0, 51, 102) True 0 demo_slide world_down = (Some s, w') \<and>
      filter is_picture (shapes s) = [] \<and>
      (\<exists>body. shapes s ! 2 = TextBox body \<and> box_width body = 9)) \<and>
   fst (try_image demo_env False (JStr (ustr_of ''road'')) world_jpeg) = Returns None"
proof -
  let ?info = "[(ustr_of ''title'', JStr (ustr_of ''Paths'')),
           (ustr_of ''content'', JArr [JStr (ustr_of '' walk ''), JStr (ustr_of ''  ''),
                                        JStr (ustr_of ''trail'')]),
           (ustr_of ''image_description'', JStr (ustr_of ''road''))]"
  have d: "demo_slide = JObj ?info" by (simp add: demo_slide_def)
  note desc = demo_description
  have tj: "try_image demo_env True (dict_get ?info ''image_description'' JNull) world_jpeg =
     (Returns (Some [255, 216, 255]),
      world_jpeg\<lparr>requests := [Search (JStr (ustr_of ''road'')), Download (JStr (ustr_of ''https://img''))]\<rparr>)"
    by (simp only: desc image_jpeg)
  have tp: "try_image demo_env True (dict_get ?info ''image_description'' JNull) world_page =
     (Returns (Some [60, 104, 49, 62]),
      world_page\<lparr>requests := [Search (JStr (ustr_of ''road'')), Download (JStr (ustr_of ''https://img''))]\<rparr>)"
    by (simp only: desc image_page)
  have td: "try_image demo_env True (dict_get ?info ''image_description'' JNull) world_down =
     (Returns (None),
      world_down\<lparr>requests := [Search (JStr (ustr_of ''road'')), Download (JStr (ustr_of ''https://img'')),
                    Download (JStr (ustr_of ''https://img'')), Download (JStr (ustr_of ''https://img''))],
                  sleeps := [1, 2, 3]\<rparr>)"
    by (simp only: desc image_down)
  have acc: "picture_ok demo_env [255, 216, 255]" "\<not> picture_ok demo_env [60, 104, 49, 62]"
    by (simp_all add: demo_accepts)
  have a: "\<exists>s w'. content_slide demo_env (0, 51, 102) True 0 demo_slide world_jpeg = (Some s, w') \<and>
      filter is_picture (shapes s) = [Picture [255, 216, 255] 6 2 3.5 (0, 51, 102) 2] \<and>
      (\<exists>body. shapes s ! 2 = TextBox body \<and> box_width body = 5)"
  proof -
    obtain s w' where r: "content_slide demo_env (0, 51, 102) True 0 (JObj ?info) world_jpeg = (Some s, w')"
      using slide_jpeg[of "(0, 51, 102)", unfolded d] by blast
    from C4_image_layout[OF r tj] obtain body where
      at2: "shapes s ! 2 = TextBox body" and
      some: "\<forall>b. Some [255, 216, 255] = Some b \<longrightarrow>
        box_width body = 5 \<and>
        (picture_ok demo_env b \<longrightarrow>
           filter is_picture (shapes s) = [Picture b 6 2 3.5 (0, 51, 102) 2] \<and>
           last (shapes s) = Picture b 6 2 3.5 (0, 51, 102) 2 \<and>
           box_left body + box_width body \<le> 6) \<and>
        (\<not> picture_ok demo_env b \<longrightarrow> filter is_picture (shapes s) = [])"
      by blast
    from some acc(1) have "box_width body = 5"
      and "filter is_picture (shapes s) = [Picture [255, 216, 255] 6 2 3.5 (0, 51, 102) 2]"
      by simp_all
    with at2 r d show ?thesis by auto
  qed
  have b: "\<exists>s w'. content_slide demo_env (0, 51, 102) True 0 demo_slide world_page = (Some s, w') \<and>
      filter is_picture (shapes s) = [] \<and>
      (\<exists>body. shapes s ! 2 = TextBox body \<and> box_width body = 5)"
  proof -
    obtain s w' where r: "content_slide demo_env (0, 51, 102) True 0 (JObj ?info) world_page = (Some s, w')"
      using slide_page[of "(0, 51, 102)", unfolded d] by blast
    from C4_image_layout[OF r tp] obtain body where
      at2: "shapes s ! 2 = TextBox body" and
      some: "\<forall>b. Some [60, 104, 49, 62] = Some b \<longrightarrow>
        box_width body = 5 \<and>
        (picture_ok demo_env b \<longrightarrow>
           filter is_picture (shapes s) = [Picture b 6 2 3.5 (0, 51, 102) 2] \<and>
           last (shapes s) = Picture b 6 2 3.5 (0, 51, 102) 2 \<and>
           box_left body + box_width body \<le> 6) \<and>
        (\<not> picture_ok demo_env b \<longrightarrow> filter is_picture (shapes s) = [])"
      by blast
    from some acc(2) have "box_width body = 5" and "filter is_picture (shapes s) = []"
      by simp_all
    with at2 r d show ?thesis by auto
  qed
  have c: "\<exists>s w'. content_slide demo_env (0, 51, 102) True 0 demo_slide world_down = (Some s, w') \<and>
      filter is_picture (shapes s) = [] \<and>
      (\<exists>body. shapes s ! 2 = TextBox body \<and> box_width body = 9)"
  proof -
    obtain s w' where r: "content_slide demo_env (0, 51, 102) True 0 (JObj ?info) world_down = (Some s, w')"
      using slide_down[of "(0, 51, 102)", unfolded d] by blast
    from C4_image_layout[OF r td] obtain body where
      at2: "shapes s ! 2 = TextBox body" and
      none: "(None :: bytes option) = None \<longrightarrow> box_width body = 9 \<and> filter is_picture (shapes s) = []"
      by blast
    from none have "box_width body = 9" and "filter is_picture (shapes s) = []"
      by simp_all
    with at2 r d show ?thesis by auto
  qed
  have e: "fst (try_image demo_env False (JStr (ustr_of ''road'')) world_jpeg) = Returns None"
  proof -
    obtain img w1 where t: "try_image demo_env False (dict_get ?info ''image_description'' JNull) world_jpeg = (Returns img, w1)"
      by (simp add: try_image_def)
    have r: "content_slide demo_env (0, 51, 102) False 0 (JObj ?info) world_jpeg =
       (Some \<lparr>shapes = title_shapes (0, 51, 102) (ustr_of ''Paths'') @
               [TextBox (content_shape False [ustr_of ''walk'', ustr_of ''trail''])],
            background = None\<rparr>, world_jpeg)"
      by (simp add: content_slide_def dict_get_def try_image_def demo_bullets place_image_def)
    from C4_image_layout[OF r t] have "img = None" by blast
    with t show ?thesis by (simp add: desc)
  qed
  from a b c e show ?thesis by blast
qed

text \<open>
  The claim has a picture on every slide whose bytes arrived. Here the search finds a
  URL and the download succeeds with status 200, but the body is an error page:
  \<open>add_picture\<close> raises, the handler prints, and the slide keeps its narrow body beside
  an empty region.
\<close>

theorem C4_unplaced_counterexample:
  "fst (try_image demo_env True (JStr (ustr_of ''road'')) world_page) = Returns (Some [60, 104, 49, 62]) \<and>
   fst (content_slide demo_env (0, 51, 102) True 0 demo_slide world_page) =
     Some \<lparr>shapes = title_shapes (0, 51, 102) (ustr_of ''Paths'') @
               [TextBox (content_shape True [ustr_of ''walk'', ustr_of ''trail''])],
            background = None\<rparr> \<and>
   box_width (content_shape True [ustr_of ''walk'', ustr_of ''trail'']) = 5 \<and>
   filter is_picture (title_shapes (0, 51, 102) (ustr_of ''Paths'') @
               [TextBox (content_shape True [ustr_of ''walk'', ustr_of ''trail''])]) = []"
  by (simp add: image_page slide_page content_shape_geometry title_shapes_no_picture)

section \<open>The temporary file and the points of the conclusion\<close>

lemma demo_loads: "json_loads demo_env demo_raw = Parsed (JObj demo_data)"
  by (simp add: demo_env_def)

lemma demo_tree: "content_tree demo_data"
  by (simp add: content_tree_def field_ok_def demo_data_def demo_slide_def)

lemma demo_descriptions: "descriptions_printable demo_env demo_data"
  by (simp add: descriptions_printable_def slides_of_def demo_data_def demo_slide_def dict_get_def
      demo_printable ustr_of_def)

lemma demo_navy: "NAVY_BLUE (int16 demo_env) th = (0, 51, 102)"
  by (simp add: NAVY_BLUE_def hex_to_rgb_def demo_env_def)

lemma demo_slides:
  "slides_of demo_data =
     [demo_slide, JObj [(ustr_of ''title'', JStr (ustr_of ''Trees'')),
                        (ustr_of ''content'', JArr [JStr (ustr_of ''leaf'')])]]"
  by (simp add: slides_of_def demo_data_def dict_get_def)

lemma strip_leaf: "strip (ustr_of ''leaf'') = ustr_of ''leaf''"
  by (simp add: strip_def ustr_of_def py_isspace_def)

lemma slide_trees:
  "content_slide e navy inc i (JObj [(ustr_of ''title'', JStr (ustr_of ''Trees'')),
                        (ustr_of ''content'', JArr [JStr (ustr_of ''leaf'')])]) w =
     (Some \<lparr>shapes = title_shapes navy (ustr_of ''Trees'') @ [TextBox (content_shape False [ustr_of ''leaf''])],
            background = None\<rparr>, w)"
  by (simp add: content_slide_def dict_get_def try_image_def content_bullets_def strip_leaf place_image_def)

lemma filenames_differ: "deck_filename h \<noteq> temp_filename i"
  by (simp add: deck_filename_def temp_filename_def ustr_of_def)

lemma demo_run:
  assumes "content_slide demo_env (0, 51, 102) True 0 demo_slide w = (Some s, w1)"
  shows "\<exists>deck. create_ppt_file demo_env demo_raw True th w =
     (Returned (Some (deck_filename (uuid4_hex demo_env))),
      w1\<lparr>files := (files w1)(deck_filename (uuid4_hex demo_env) \<mapsto> DeckFile deck)\<rparr>)"
proof -
  from create_ppt_file_returns[OF demo_loads demo_tree, where inc = True and th = th and w = w]
    demo_descriptions
  obtain s1 s2 ss s4 w2 where
    cs: "content_slides demo_env (0, 51, 102) True 0 (slides_of demo_data) w = (Some ss, w2)" and
    run: "create_ppt_file demo_env demo_raw True th w =
      (Returned (Some (deck_filename (uuid4_hex demo_env))),
       w2\<lparr>files := (files w2)(deck_filename (uuid4_hex demo_env) \<mapsto>
         DeckFile ([s1, s2] @ ss @ [s4, closing_slide (0, 51, 102)]))\<rparr>)"
    unfolding demo_navy by blast
  from cs assms have "w2 = w1" by (simp add: demo_slides slide_trees)
  with run show ?thesis by blast
qed

text \<open>
  Claim C9 fails on the code. The removal of the temporary file is the last statement of
  the \<open>try\<close> block (line 426), after \<open>add_picture\<close>; when \<open>add_picture\<close> raises, the handler
  only prints. Here the download delivers an error page under status 200: the file
  \<open>temp_img_0.jpg\<close>, absent before the call, holds the page after the slide is built and
  after the whole call has returned. When the bytes are a picture the file is removed.
\<close>

theorem C9_temp_file_left_behind:
  "temp_filename 0 = ustr_of ''temp_img_0.jpg'' \<and>
   files world_page (temp_filename 0) = None \<and>
   files (snd (content_slide demo_env (0, 51, 102) True 0 demo_slide world_page)) (temp_filename 0) =
     Some (ImageFile [60, 104, 49, 62]) \<and>
   fst (create_ppt_file demo_env demo_raw True (ustr_of ''#003366'') world_page) =
     Returned (Some (deck_filename (uuid4_hex demo_env))) \<and>
   files (snd (create_ppt_file demo_env demo_raw True (ustr_of ''#003366'') world_page)) (temp_filename 0) =
     Some (ImageFile [60, 104, 49, 62]) \<and>
   files (snd (create_ppt_file demo_env demo_raw True (ustr_of ''#003366'') world_jpeg)) (temp_filename 0) =
     None"
proof -
  have name: "temp_filename 0 = ustr_of ''temp_img_0.jpg''"
    by (simp add: temp_filename_def decimal.simps ustr_of_def)
  have before: "files world_page (temp_filename 0) = None"
    by (simp add: world_page_def)
  have slide: "files (snd (content_slide demo_env (0, 51, 102) True 0 demo_slide world_page)) (temp_filename 0) =
     Some (ImageFile [60, 104, 49, 62])"
    by (simp add: slide_page)
  from demo_run[OF slide_page] obtain deck where
    page: "create_ppt_file demo_env demo_raw True (ustr_of ''#003366'') world_page =
     (Returned (Some (deck_filename (uuid4_hex demo_env))),
      (world_page\<lparr>requests := [Search (JStr (ustr_of ''road'')), Download (JStr (ustr_of ''https://img''))],
                  files := (files world_page)(temp_filename 0 \<mapsto> ImageFile [60, 104, 49, 62])\<rparr>)
        \<lparr>files := (files (world_page\<lparr>requests := [Search (JStr (ustr_of ''road'')), Download (JStr (ustr_of ''https://img''))],
                  files := (files world_page)(temp_filename 0 \<mapsto> ImageFile [60, 104, 49, 62])\<rparr>))
           (deck_filename (uuid4_hex demo_env) \<mapsto> DeckFile deck)\<rparr>)"
    by blast
  from demo_run[OF slide_jpeg] obtain deck' where
    jpeg: "create_ppt_file demo_env demo_raw True (ustr_of ''#003366'') world_jpeg =
     (Returned (Some (deck_filename (uuid4_hex demo_env))),
      (world_jpeg\<lparr>requests := [Search (JStr (ustr_of ''road'')), Download (JStr (ustr_of ''https://img''))],
                  files := (files world_jpeg)(temp_filename 0 := None)\<rparr>)
        \<lparr>files := (files (world_jpeg\<lparr>requests := [Search (JStr (ustr_of ''road'')), Download (JStr (ustr_of ''https://img''))],
                  files := (files world_jpeg)(temp_filename 0 := None)\<rparr>))
           (deck_filename (uuid4_hex demo_env) \<mapsto> DeckFile deck')\<rparr>)"
    by blast
  have after: "files (snd (create_ppt_file demo_env demo_raw True (ustr_of ''#003366'') world_page)) (temp_filename 0) =
     Some (ImageFile [60, 104, 49, 62])"
    by (simp add: page filenames_differ[symmetric])
  have clean: "files (snd (create_ppt_file demo_env demo_raw True (ustr_of ''#003366'') world_jpeg)) (temp_filename 0) =
     None"
    by (simp add: jpeg filenames_differ[symmetric])
  from name before slide page after clean show ?thesis by simp
qed


lemma content_bullets_clean:
  assumes "content_bullets c = Some bullets"
  shows "bullets \<noteq> [] \<and> (\<forall>b \<in> set bullets. b \<noteq> [])"
  using assms by (auto simp add: content_bullets_def ustr_of_def split: option.splits if_splits)

text \<open>
  Claim C5 fails on the code for the conclusion. The body of a content slide strips its
  bullets, drops the blank ones and falls back to the placeholder (lines 386 to 388); the
  body of the conclusion renders \<open>conclusion_data.get('content', [])\<close> as it is given
  (lines 456 to 477). A conclusion whose points are an empty text and two spaces gets two
  paragraphs that hold the glyph alone, where the same list on a content slide gives the
  placeholder; a conclusion without points gets no bullet at all; and a blank point counts
  in the summed length, here moving 300 characters into the band above 300.
\<close>

theorem C5_conclusion_keeps_blank_points:
  "conclusion_slide fmt navy [(ustr_of ''conclusion'', JObj [(ustr_of ''content'', JArr [JStr [], JStr [32, 32]])])] =
     Some \<lparr>shapes =
        [TextBox ((add_textbox 0.5 0.3 9 0.8)\<lparr>
           paragraphs := [new_paragraph\<lparr>par_text := ustr_of ''Conclusion'', font_bold := True,
             font_size := Some 28, font_color := Some navy\<rparr>]\<rparr>),
         Rectangle 0.5 1.1 9 0.03 navy,
         TextBox ((add_textbox 1 1.5 8 3.5)\<lparr>word_wrap := True,
           paragraphs := [new_paragraph,
             conclusion_paragraph fmt (20, 14) (JStr []),
             conclusion_paragraph fmt (20, 14) (JStr [32, 32])]\<rparr>)],
       background = None\<rparr> \<and>
   par_text (conclusion_paragraph fmt (20, 14) (JStr [])) = bullet_glyph \<and>
   par_text (conclusion_paragraph fmt (20, 14) (JStr [32, 32])) = bullet_glyph @ [32, 32] \<and>
   content_bullets (JArr [JStr [], JStr [32, 32]]) = Some [ustr_of ''(No content generated)''] \<and>
   conclusion_body fmt (JArr []) =
     Some ((add_textbox 1 1.5 8 3.5)\<lparr>word_wrap := True, paragraphs := [new_paragraph]\<rparr>) \<and>
   conclusion_body fmt (JArr [JStr (replicate 300 97), JStr [32]]) =
     Some ((add_textbox 1 1.5 8 3.5)\<lparr>word_wrap := True,
        paragraphs := [new_paragraph,
          conclusion_paragraph fmt (16, 10) (JStr (replicate 300 97)),
          conclusion_paragraph fmt (16, 10) (JStr [32])]\<rparr>) \<and>
   conclusion_sizing 300 = (20, 14)"
  by (simp add: conclusion_slide_def conclusion_body_def dict_get_def conclusion_sizing_def
      conclusion_paragraph_def new_paragraph_def format_item_def content_bullets_def strip_def
      py_isspace_def)

section \<open>Rendering without images\<close>

lemma content_slide_no_images:
  assumes "content_slide e navy False i x w = (r, w')"
  shows "w' = w \<and>
    (\<forall>s. r = Some s \<longrightarrow> body_width s = Some 9 \<and> filter is_picture (shapes s) = [])"
  using assms
  by (cases x)
     (auto simp add: content_slide_def try_image_def place_image_def body_width_def title_shapes_def
        content_shape_geometry split: option.splits)

lemma content_slides_no_images:
  "content_slides e navy False i xs w = (r, w') \<Longrightarrow>
     w' = w \<and>
     (\<forall>ss. r = Some ss \<longrightarrow>
        (\<forall>s \<in> set ss. body_width s = Some 9 \<and> filter is_picture (shapes s) = []))"
proof (induction xs arbitrary: i w r w')
  case Nil
  then show ?case by auto
next
  case (Cons x xs)
  obtain r1 w1 where one: "content_slide e navy False i x w = (r1, w1)"
    by (cases "content_slide e navy False i x w")
  note h1 = content_slide_no_images[OF one]
  show ?case
  proof (cases r1)
    case None
    with Cons.prems one h1 show ?thesis by auto
  next
    case (Some s)
    obtain r2 w2 where rest: "content_slides e navy False (Suc i) xs w1 = (r2, w2)"
      by (cases "content_slides e navy False (Suc i) xs w1")
    note h2 = Cons.IH[OF rest]
    from Cons.prems one Some rest h1 h2 show ?thesis
      by (auto split: option.splits)
  qed
qed

lemma title_slide_no_picture: "title_slide navy data = Some s \<Longrightarrow> filter is_picture (shapes s) = []"
  by (auto simp add: title_slide_def split: option.splits)

lemma toc_slide_no_picture: "toc_slide fmt navy data = Some s \<Longrightarrow> filter is_picture (shapes s) = []"
  by (auto simp add: toc_slide_def toc_boxes_def split: option.splits if_splits prod.splits)

lemma conclusion_slide_no_picture:
  "conclusion_slide fmt navy data = Some s \<Longrightarrow> filter is_picture (shapes s) = []"
  by (auto simp add: conclusion_slide_def split: option.splits json.splits)

lemma closing_slide_no_picture: "filter is_picture (shapes (closing_slide navy)) = []"
  by (simp add: closing_slide_def)


lemma create_ppt_file_deck:
  assumes "create_ppt_file e raw inc th w = (Returned (Some f), w')"
  shows "\<exists>data s1 s2 ss s4 w1.
    json_loads e raw = Parsed (JObj data) \<and>
    title_slide (NAVY_BLUE (int16 e) th) data = Some s1 \<and>
    toc_slide (py_str e) (NAVY_BLUE (int16 e) th) data = Some s2 \<and>
    content_slides e (NAVY_BLUE (int16 e) th) inc 0 (slides_of data) w = (Some ss, w1) \<and>
    conclusion_slide (py_str e) (NAVY_BLUE (int16 e) th) data = Some s4 \<and>
    f = deck_filename (uuid4_hex e) \<and>
    w' = w1\<lparr>files := (files w1)(f \<mapsto>
           DeckFile ([s1, s2] @ ss @ [s4, closing_slide (NAVY_BLUE (int16 e) th)]))\<rparr>"
  using assms
  by (auto simp add: create_ppt_file_def slides_of_def
      split: option.splits json.splits prod.splits parsed.splits)

lemma create_ppt_file_no_images_world:
  "requests (snd (create_ppt_file e raw False th w)) = requests w \<and>
   sleeps (snd (create_ppt_file e raw False th w)) = sleeps w"
proof -
  have same: "w1 = w" if "content_slides e navy False 0 xs w = (r, w1)" for navy xs r w1
    using content_slides_no_images[OF that] by simp
  show ?thesis
    by (auto simp add: create_ppt_file_def
        split: option.splits json.splits prod.splits parsed.splits dest!: same)
qed

text \<open>
  Claim C10. With \<open>include_images\<close> false the call makes no request and never sleeps,
  whatever the text it is given. When it returns a deck, the world differs from the one
  before the call in the deck file alone, no slide of the deck holds a picture, and the
  body of every content slide is 9 wide, whatever the entries say under
  \<open>image_description\<close>.
\<close>

theorem C10_no_images:
  "requests (snd (create_ppt_file e raw False th w)) = requests w \<and>
   sleeps (snd (create_ppt_file e raw False th w)) = sleeps w \<and>
   (\<forall>f w'. create_ppt_file e raw False th w = (Returned (Some f), w') \<longrightarrow>
      (\<exists>data deck. json_loads e raw = Parsed (JObj data) \<and>
         w' = w\<lparr>files := (files w)(f \<mapsto> DeckFile deck)\<rparr> \<and>
         length deck = length (slides_of data) + 4 \<and>
         (\<forall>s \<in> set deck. filter is_picture (shapes s) = []) \<and>
         (\<forall>k < length (slides_of data). body_width (deck ! (k + 2)) = Some 9)))"
proof (intro conjI allI impI)
  show "requests (snd (create_ppt_file e raw False th w)) = requests w"
    using create_ppt_file_no_images_world by blast
  show "sleeps (snd (create_ppt_file e raw False th w)) = sleeps w"
    using create_ppt_file_no_images_world by blast
next
  fix f w'
  assume run: "create_ppt_file e raw False th w = (Returned (Some f), w')"
  let ?navy = "NAVY_BLUE (int16 e) th"
  from create_ppt_file_deck[OF run] obtain data s1 s2 ss s4 w1 where
    loads: "json_loads e raw = Parsed (JObj data)" and
    s1: "title_slide ?navy data = Some s1" and
    s2: "toc_slide (py_str e) ?navy data = Some s2" and
    cs: "content_slides e ?navy False 0 (slides_of data) w = (Some ss, w1)" and
    s4: "conclusion_slide (py_str e) ?navy data = Some s4" and
    w': "w' = w1\<lparr>files := (files w1)(f \<mapsto> DeckFile ([s1, s2] @ ss @ [s4, closing_slide ?navy]))\<rparr>"
    by blast
  let ?deck = "[s1, s2] @ ss @ [s4, closing_slide ?navy]"
  from content_slides_no_images[OF cs] have w1: "w1 = w"
    and plain: "\<forall>s \<in> set ss. body_width s = Some 9 \<and> filter is_picture (shapes s) = []"
    by simp_all
  from content_slides_built[OF cs] have len: "length ss = length (slides_of data)" by simp
  have pics: "\<forall>s \<in> set ?deck. filter is_picture (shapes s) = []"
    using plain title_slide_no_picture[OF s1] toc_slide_no_picture[OF s2]
      conclusion_slide_no_picture[OF s4] closing_slide_no_picture[of ?navy]
    by auto
  have widths: "\<forall>k < length (slides_of data). body_width (?deck ! (k + 2)) = Some 9"
  proof (intro allI impI)
    fix k assume "k < length (slides_of data)"
    with len have k: "k < length ss" by simp
    then have "?deck ! (k + 2) = ss ! k" by (simp add: nth_append)
    with plain k show "body_width (?deck ! (k + 2)) = Some 9" by simp
  qed
  have "length ?deck = length (slides_of data) + 4" using len by simp
  with loads w' w1 pics widths
  show "\<exists>data deck. json_loads e raw = Parsed (JObj data) \<and>
         w' = w\<lparr>files := (files w)(f \<mapsto> DeckFile deck)\<rparr> \<and>
         length deck = length (slides_of data) + 4 \<and>
         (\<forall>s \<in> set deck. filter is_picture (shapes s) = []) \<and>
         (\<forall>k < length (slides_of data). body_width (deck ! (k + 2)) = Some 9)"
    by blast
qed


theorem C10_no_images_witness:
  "\<exists>f w' deck.
     create_ppt_file demo_env demo_raw False (ustr_of ''#003366'') world_jpeg = (Returned (Some f), w') \<and>
     requests w' = [] \<and> sleeps w' = [] \<and>
     w' = world_jpeg\<lparr>files := (files world_jpeg)(f \<mapsto> DeckFile deck)\<rparr> \<and>
     length deck = 6 \<and>
     body_width (deck ! 2) = Some 9 \<and> body_width (deck ! 3) = Some 9 \<and>
     filter is_picture (shapes (deck ! 2)) = []"
proof -
  let ?th = "ustr_of ''#003366''"
  from create_ppt_file_returns[OF demo_loads demo_tree, where inc = False and th = ?th and w = world_jpeg]
  obtain f w' where run: "create_ppt_file demo_env demo_raw False ?th world_jpeg = (Returned (Some f), w')"
    by blast
  note c10 = C10_no_images[of demo_env demo_raw ?th world_jpeg]
  from c10 run have req: "requests w' = []" and sl: "sleeps w' = []"
    by (simp_all add: world_jpeg_def)
  from c10 run obtain data deck where
    loads: "json_loads demo_env demo_raw = Parsed (JObj data)" and
    w': "w' = world_jpeg\<lparr>files := (files world_jpeg)(f \<mapsto> DeckFile deck)\<rparr>" and
    len: "length deck = length (slides_of data) + 4" and
    pics: "\<forall>s \<in> set deck. filter is_picture (shapes s) = []" and
    widths: "\<forall>k < length (slides_of data). body_width (deck ! (k + 2)) = Some 9"
    by blast
  from loads have data: "data = demo_data" by (simp add: demo_loads)
  have two: "length (slides_of demo_data) = 2" by (simp add: demo_slides)
  from len data two have l6: "length deck = 6" by simp
  from widths data two have "body_width (deck ! (0 + 2)) = Some 9" by simp
  then have b2: "body_width (deck ! 2) = Some 9" by (simp add: numeral_2_eq_2)
  from widths data two have "body_width (deck ! (1 + 2)) = Some 9" by simp
  then have b3: "body_width (deck ! 3) = Some 9" by (simp add: numeral_3_eq_3)
  from l6 have "deck ! 2 \<in> set deck" by simp
  with pics have p2: "filter is_picture (shapes (deck ! 2)) = []" by blast
  from run req sl w' l6 b2 b3 p2 show ?thesis by blast
qed

section \<open>Texts that are no content trees\<close>

lemma fetch_loop_files: "fetch_loop url attempt left w = (r, w') \<Longrightarrow> files w' = files w"
proof (induction left arbitrary: attempt w r w')
  case 0
  then show ?case by simp
next
  case (Suc left)
  show ?case
  proof (cases "net w (length (requests w))")
    case ConnectionError
    with Suc.prems have
      "fetch_loop url (attempt + 1) left (sleep (1 * (attempt + 1)) (w\<lparr>requests := requests w @ [Download url]\<rparr>)) = (r, w')"
      by (simp add: requests_get_def)
    from Suc.IH[OF this] show ?thesis by (simp add: sleep_def)
  next
    case (Response status_code content body)
    show ?thesis
    proof (cases "status_code = 200")
      case True
      with Suc.prems Response show ?thesis by (auto simp add: requests_get_def)
    next
      case False
      with Suc.prems Response have
        "fetch_loop url (attempt + 1) left (sleep (1 * (attempt + 1)) (w\<lparr>requests := requests w @ [Download url]\<rparr>)) = (r, w')"
        by (simp add: requests_get_def)
      from Suc.IH[OF this] show ?thesis by (simp add: sleep_def)
    qed
  qed
qed

lemma fetch_image_files: "fetch_image e url retries w = (r, w') \<Longrightarrow> files w' = files w"
  by (cases "fetch_loop url 0 retries w")
     (auto simp add: fetch_image_def dest: fetch_loop_files split: if_splits)

lemma generate_image_files: "generate_image e prompt w = (r, w') \<Longrightarrow> files w' = files w"
  by (auto simp add: generate_image_def requests_get_def
      split: if_splits http_result.splits option.splits json.splits)

lemma try_image_files: "try_image e inc description w = (r, w') \<Longrightarrow> files w' = files w"
proof (cases "inc \<and> py_truthy description")
  case False
  assume "try_image e inc description w = (r, w')"
  with False show ?thesis by (auto simp add: try_image_def)
next
  case True
  assume run: "try_image e inc description w = (r, w')"
  obtain g w1 where g: "generate_image e description w = (g, w1)"
    by (cases "generate_image e description w")
  note f1 = generate_image_files[OF g]
  show ?thesis
  proof (cases g)
    case Raises
    with run True g f1 show ?thesis by (simp add: try_image_def)
  next
    case (Returns img_url)
    show ?thesis
    proof (cases "py_truthy img_url")
      case False
      with run True g Returns f1 show ?thesis by (simp add: try_image_def)
    next
      case yes: True
      with run True g Returns have "fetch_image e img_url 3 w1 = (r, w')"
        by (simp add: try_image_def)
      from fetch_image_files[OF this] f1 show ?thesis by simp
    qed
  qed
qed

lemma no_new_deck_refl: "no_new_deck w w"
  by (simp add: no_new_deck_def)

lemma no_new_deck_trans: "no_new_deck w w1 \<Longrightarrow> no_new_deck w1 w2 \<Longrightarrow> no_new_deck w w2"
  by (simp add: no_new_deck_def)

lemma no_new_deck_files: "files w' = files w \<Longrightarrow> no_new_deck w w'"
  by (simp add: no_new_deck_def)

lemma place_image_no_deck: "place_image accepts navy i img_data w = (p, w') \<Longrightarrow> no_new_deck w w'"
  by (auto simp add: place_image_def no_new_deck_def split: option.splits if_splits)

lemma content_slide_no_deck:
  assumes "content_slide e navy inc i x w = (r, w')"
  shows "no_new_deck w w'"
proof (cases x)
  case (JObj info)
  show ?thesis
  proof (cases "as_text (dict_get info ''title'' (JStr (ustr_of ''Slide'')))")
    case None
    with assms JObj show ?thesis by (simp add: content_slide_def no_new_deck_refl)
  next
    case (Some slide_title)
    obtain t w1 where t: "try_image e inc (dict_get info ''image_description'' JNull) w = (t, w1)"
      by (cases "try_image e inc (dict_get info ''image_description'' JNull) w")
    note f1 = no_new_deck_files[OF try_image_files[OF t]]
    show ?thesis
    proof (cases t)
      case Raises
      with assms JObj Some t f1 show ?thesis by (simp add: content_slide_def)
    next
      case (Returns img_data)
      show ?thesis
      proof (cases "content_bullets (dict_get info ''content'' (JArr []))")
        case None
        with assms JObj Some t Returns f1 show ?thesis by (simp add: content_slide_def)
      next
        case bullets: (Some bullets)
        obtain p w2 where p: "place_image (picture_ok e) navy i img_data w1 = (p, w2)"
          by (cases "place_image (picture_ok e) navy i img_data w1")
        with assms JObj Some t Returns bullets have "w' = w2" by (simp add: content_slide_def)
        with no_new_deck_trans[OF f1 place_image_no_deck[OF p]] show ?thesis by simp
      qed
    qed
  qed
qed (use assms in \<open>simp_all add: content_slide_def no_new_deck_refl\<close>)

lemma content_slides_no_deck:
  "content_slides e navy inc i xs w = (r, w') \<Longrightarrow> no_new_deck w w'"
proof (induction xs arbitrary: i w r w')
  case Nil
  then show ?case by (simp add: no_new_deck_refl)
next
  case (Cons x xs)
  obtain r1 w1 where one: "content_slide e navy inc i x w = (r1, w1)"
    by (cases "content_slide e navy inc i x w")
  note h1 = content_slide_no_deck[OF one]
  show ?case
  proof (cases r1)
    case None
    with Cons.prems one h1 show ?thesis by simp
  next
    case (Some s)
    obtain r2 w2 where rest: "content_slides e navy inc (Suc i) xs w1 = (r2, w2)"
      by (cases "content_slides e navy inc (Suc i) xs w1")
    from Cons.prems one Some rest have "w' = w2" by (cases r2) simp_all
    with no_new_deck_trans[OF h1 Cons.IH[OF rest]] show ?thesis by simp
  qed
qed

lemma create_ppt_file_no_deck:
  assumes "create_ppt_file e raw inc th w = (r, w')" and "\<forall>f. r \<noteq> Returned (Some f)"
  shows "no_new_deck w w'"
proof -
  have cs: "no_new_deck w w1" if "content_slides e navy inc 0 xs w = (r1, w1)" for navy xs r1 w1
    using content_slides_no_deck[OF that] .
  from assms show ?thesis
    by (auto simp add: create_ppt_file_def no_new_deck_refl
        split: parsed.splits json.splits option.splits prod.splits dest: cs)
qed

lemma create_ppt_file_none:
  "fst (create_ppt_file e raw inc th w) = Returned None \<longleftrightarrow> json_loads e raw = JSONDecodeError"
  by (auto simp add: create_ppt_file_def split: parsed.splits json.splits option.splits prod.splits)


lemma deep_differs: "length s < 100000 \<Longrightarrow> s \<noteq> demo_raw_deep \<and> demo_raw_deep \<noteq> s"
  by (auto simp add: demo_raw_deep_def)

lemma demo_loads_surrogate: "json_loads demo_env demo_raw_surrogate = Parsed (JObj demo_surrogate)"
  by (simp add: demo_env_def demo_raw_def demo_raw_short_def demo_raw_surrogate_def ustr_of_def)

lemma demo_loads_list: "json_loads demo_env demo_raw_list = Parsed (JArr [])"
  by (simp add: demo_env_def demo_raw_def demo_raw_short_def demo_raw_surrogate_def
      demo_raw_list_def ustr_of_def)

lemma demo_loads_deep: "json_loads demo_env demo_raw_deep = OtherError"
proof -
  have "demo_raw_deep \<noteq> demo_raw" "demo_raw_deep \<noteq> demo_raw_short"
    "demo_raw_deep \<noteq> demo_raw_surrogate" "demo_raw_deep \<noteq> demo_raw_list"
    by (simp_all add: deep_differs demo_raw_def demo_raw_short_def demo_raw_surrogate_def
        demo_raw_list_def ustr_of_def)
  then show ?thesis by (simp add: demo_env_def)
qed

lemma demo_loads_bad: "json_loads demo_env (ustr_of ''not json'') = JSONDecodeError"
proof -
  have "ustr_of ''not json'' \<noteq> demo_raw_deep" by (simp add: deep_differs ustr_of_def)
  moreover have "ustr_of ''not json'' \<noteq> demo_raw" "ustr_of ''not json'' \<noteq> demo_raw_short"
    "ustr_of ''not json'' \<noteq> demo_raw_surrogate" "ustr_of ''not json'' \<noteq> demo_raw_list"
    by (simp_all add: demo_raw_def demo_raw_short_def demo_raw_surrogate_def
        demo_raw_list_def ustr_of_def)
  ultimately show ?thesis by (simp add: demo_env_def)
qed

lemma demo_run_surrogate:
  "create_ppt_file demo_env demo_raw_surrogate True th w = (Raised, w)"
proof -
  have p: "\<not> printable demo_env (JStr [55296])" by (simp add: demo_printable)
  have g: "generate_image demo_env (JStr [55296]) w = (Raises, w)"
    using p by (simp add: generate_image_def demo_key)
  have s: "slides_of demo_surrogate = [JObj [(ustr_of ''image_description'', JStr [55296])]]"
    by (simp add: slides_of_def demo_surrogate_def dict_get_def)
  have c: "content_slide demo_env navy True 0 (JObj [(ustr_of ''image_description'', JStr [55296])]) w = (None, w)"
    for navy
    by (simp add: content_slide_def dict_get_def try_image_def g)
  have t: "title_slide navy demo_surrogate \<noteq> None" for navy
    by (simp add: title_slide_def demo_surrogate_def dict_get_def)
  have o: "toc_slide fmt navy demo_surrogate \<noteq> None" for fmt navy
    by (simp add: toc_slide_def toc_boxes_def demo_surrogate_def dict_get_def)
  have i: "py_iter (dict_get demo_surrogate ''slides'' (JArr [])) =
      Some [JObj [(ustr_of ''image_description'', JStr [55296])]]"
    by (simp add: demo_surrogate_def dict_get_def)
  from t o obtain s1 s2 where
    "title_slide (NAVY_BLUE (int16 demo_env) th) demo_surrogate = Some s1"
    "toc_slide (py_str demo_env) (NAVY_BLUE (int16 demo_env) th) demo_surrogate = Some s2"
    by blast
  then show ?thesis by (simp add: create_ppt_file_def demo_loads_surrogate i c)
qed

text \<open>
  The tree with the surrogate is a content tree, and with images and a key the call on it
  is left by the exception of the print of line 122.
\<close>

lemma demo_tree_surrogate:
  "content_tree demo_surrogate \<and>
   create_ppt_file demo_env demo_raw_surrogate True th w = (Raised, w)"
  by (simp add: demo_run_surrogate content_tree_def field_ok_def demo_surrogate_def)

text \<open>
  Claim C6, as the code has it. The call returns \<open>None\<close> exactly when \<open>json.loads\<close> raises
  JSONDecodeError (lines 155 to 158), and then nothing has happened: no slide, no request,
  no file. A text that is no content tree for another reason gets no \<open>None\<close>: when
  \<open>json.loads\<close> raises another exception, or returns a value that is not a dict, the call
  is left by an exception. Whenever the call does not return the name of a file, by
  \<open>None\<close> or by an exception, however far the loop over the slides has come, no deck file
  has been written.
\<close>

theorem C6_parse_failure:
  "(json_loads e raw = JSONDecodeError \<longrightarrow> create_ppt_file e raw inc th w = (Returned None, w)) \<and>
   (fst (create_ppt_file e raw inc th w) = Returned None \<longleftrightarrow> json_loads e raw = JSONDecodeError) \<and>
   (json_loads e raw = OtherError \<longrightarrow> create_ppt_file e raw inc th w = (Raised, w)) \<and>
   (\<forall>v. json_loads e raw = Parsed v \<and> (\<forall>data. v \<noteq> JObj data) \<longrightarrow>
      create_ppt_file e raw inc th w = (Raised, w)) \<and>
   (\<forall>r w'. create_ppt_file e raw inc th w = (r, w') \<and> (\<forall>f. r \<noteq> Returned (Some f)) \<longrightarrow>
      no_new_deck w w')"
proof (intro conjI allI impI)
  assume "json_loads e raw = JSONDecodeError"
  then show "create_ppt_file e raw inc th w = (Returned None, w)"
    by (simp add: create_ppt_file_def)
next
  show "fst (create_ppt_file e raw inc th w) = Returned None \<longleftrightarrow> json_loads e raw = JSONDecodeError"
    by (rule create_ppt_file_none)
next
  assume "json_loads e raw = OtherError"
  then show "create_ppt_file e raw inc th w = (Raised, w)"
    by (simp add: create_ppt_file_def)
next
  fix v
  assume "json_loads e raw = Parsed v \<and> (\<forall>data. v \<noteq> JObj data)"
  then show "create_ppt_file e raw inc th w = (Raised, w)"
    by (cases v) (simp_all add: create_ppt_file_def)
next
  fix r w'
  assume "create_ppt_file e raw inc th w = (r, w') \<and> (\<forall>f. r \<noteq> Returned (Some f))"
  then show "no_new_deck w w'"
    using create_ppt_file_no_deck by blast
qed


theorem C6_parse_failure_witness:
  "json_loads demo_env (ustr_of ''not json'') = JSONDecodeError \<and>
   create_ppt_file demo_env (ustr_of ''not json'') True (ustr_of ''#003366'') world_jpeg =
     (Returned None, world_jpeg) \<and>
   json_loads demo_env demo_raw_deep = OtherError \<and>
   create_ppt_file demo_env demo_raw_deep True (ustr_of ''#003366'') world_jpeg = (Raised, world_jpeg) \<and>
   json_loads demo_env demo_raw_list = Parsed (JArr []) \<and>
   create_ppt_file demo_env demo_raw_list True (ustr_of ''#003366'') world_jpeg = (Raised, world_jpeg) \<and>
   fst (create_ppt_file demo_env demo_raw_surrogate True (ustr_of ''#003366'') world_jpeg) = Raised \<and>
   (\<forall>name d. files (snd (create_ppt_file demo_env demo_raw_surrogate True (ustr_of ''#003366'') world_jpeg)) name
       \<noteq> Some (DeckFile d))"
proof -
  let ?th = "ustr_of ''#003366''"
  note bad = C6_parse_failure[of demo_env "ustr_of ''not json''" True ?th world_jpeg]
  note deep = C6_parse_failure[of demo_env demo_raw_deep True ?th world_jpeg]
  note list = C6_parse_failure[of demo_env demo_raw_list True ?th world_jpeg]
  note surr = C6_parse_failure[of demo_env demo_raw_surrogate True ?th world_jpeg]
  from bad demo_loads_bad
  have a: "create_ppt_file demo_env (ustr_of ''not json'') True ?th world_jpeg = (Returned None, world_jpeg)"
    by blast
  from deep demo_loads_deep
  have b: "create_ppt_file demo_env demo_raw_deep True ?th world_jpeg = (Raised, world_jpeg)"
    by blast
  have "json_loads demo_env demo_raw_list = Parsed (JArr []) \<and> (\<forall>data. JArr [] \<noteq> JObj data)"
    by (simp add: demo_loads_list)
  with list have c: "create_ppt_file demo_env demo_raw_list True ?th world_jpeg = (Raised, world_jpeg)"
    by blast
  obtain r w' where run: "create_ppt_file demo_env demo_raw_surrogate True ?th world_jpeg = (r, w')"
    by (cases "create_ppt_file demo_env demo_raw_surrogate True ?th world_jpeg")
  with demo_run_surrogate[of ?th world_jpeg] have r: "r = Raised" by simp
  then have "\<forall>f. r \<noteq> Returned (Some f)" by simp
  with surr run have "no_new_deck world_jpeg w'" by blast
  then have d: "\<forall>name d. files w' name \<noteq> Some (DeckFile d)"
    by (simp add: no_new_deck_def world_jpeg_def)
  from demo_loads_bad a demo_loads_deep b demo_loads_list c r d run show ?thesis by simp
qed

theorem C6_not_a_tree_counterexample:
  "json_loads demo_env demo_raw_list = Parsed (JArr []) \<and>
   demo_raw_list = ustr_of ''[]'' \<and>
   create_ppt_file demo_env demo_raw_list True (ustr_of ''#003366'') world_jpeg = (Raised, world_jpeg) \<and>
   fst (create_ppt_file demo_env demo_raw_list True (ustr_of ''#003366'') world_jpeg) \<noteq> Returned None \<and>
   json_loads demo_env demo_raw_deep = OtherError \<and>
   fst (create_ppt_file demo_env demo_raw_deep True (ustr_of ''#003366'') world_jpeg) \<noteq> Returned None"
proof -
  have "demo_raw_list = ustr_of ''[]''" by (simp add: demo_raw_list_def)
  then show ?thesis
    by (simp only: simp_thms) (simp add: create_ppt_file_def demo_loads_list demo_loads_deep)
qed

section \<open>Downloading with retries\<close>

lemma not_failed: "\<not> attempt_failed x \<Longrightarrow> \<exists>c b. x = Response 200 c b"
  by (cases x) auto

lemma content_slide_with_images:
  assumes "content_slide e navy False i x w = (Some s, w1)" and "description_printable e x"
  shows "\<exists>s' w2. content_slide e navy True i x w = (Some s', w2)"
proof -
  from assms(1) obtain info where x: "x = JObj info"
    by (cases x) (simp_all add: content_slide_def)
  from assms(1) x obtain slide_title where
    t: "as_text (dict_get info ''title'' (JStr (ustr_of ''Slide''))) = Some slide_title"
    by (auto simp add: content_slide_def split: option.splits)
  from assms(1) x t obtain bullets where
    b: "content_bullets (dict_get info ''content'' (JArr [])) = Some bullets"
    by (auto simp add: content_slide_def try_image_def split: option.splits)
  from assms(2) x have "py_truthy (dict_get info ''image_description'' JNull) \<longrightarrow>
      printable e (dict_get info ''image_description'' JNull)"
    by simp
  from try_image_returns[OF this] obtain img w3 where
    img: "try_image e True (dict_get info ''image_description'' JNull) w = (Returns img, w3)"
    by blast
  obtain pictures w2 where p: "place_image (picture_ok e) navy i img w3 = (pictures, w2)"
    by (cases "place_image (picture_ok e) navy i img w3")
  show ?thesis using x t b img p by (simp add: content_slide_def)
qed

lemma content_slides_with_images:
  "content_slides e navy False i xs w = (Some ss, w1) \<Longrightarrow> list_all (description_printable e) xs \<Longrightarrow>
   \<exists>ss' w2. content_slides e navy True i xs w0 = (Some ss', w2)"
proof (induction xs arbitrary: i w ss w1 w0)
  case Nil
  then show ?case by simp
next
  case (Cons x xs)
  from Cons.prems(1) obtain s wa where
    one: "content_slide e navy False i x w = (Some s, wa)"
    by (cases "content_slide e navy False i x w") (auto split: option.splits)
  from content_slide_no_images[OF one] have wa: "wa = w" by simp
  from Cons.prems(1) one obtain ss2 wb where
    rest: "content_slides e navy False (Suc i) xs wa = (Some ss2, wb)"
    by (cases "content_slides e navy False (Suc i) xs wa") (auto split: option.splits)
  from Cons.prems(2) have px: "description_printable e x" and pxs: "list_all (description_printable e) xs"
    by simp_all
  have one0: "content_slide e navy False i x w0 = (Some s, w0)"
    using one wa
    by (cases x) (auto simp add: content_slide_def try_image_def place_image_def split: option.splits)
  from content_slide_with_images[OF one0 px] obtain s' w2 where
    one': "content_slide e navy True i x w0 = (Some s', w2)"
    by blast
  from Cons.IH[OF rest pxs, of w2] obtain ss' w3 where
    rest': "content_slides e navy True (Suc i) xs w2 = (Some ss', w3)"
    by blast
  from one' rest' show ?case by simp
qed

lemma create_ppt_file_with_images:
  assumes "create_ppt_file e raw False th w = (Returned (Some f), w')"
    and "json_loads e raw = Parsed (JObj data)" and "descriptions_printable e data"
  shows "\<exists>w2. create_ppt_file e raw True th w = (Returned (Some f), w2)"
proof -
  let ?navy = "NAVY_BLUE (int16 e) th"
  from create_ppt_file_deck[OF assms(1)] assms(2) obtain s1 s2 ss s4 w1 where
    s1: "title_slide ?navy data = Some s1" and
    s2: "toc_slide (py_str e) ?navy data = Some s2" and
    cs: "content_slides e ?navy False 0 (slides_of data) w = (Some ss, w1)" and
    s4: "conclusion_slide (py_str e) ?navy data = Some s4" and
    f: "f = deck_filename (uuid4_hex e)"
    by auto
  from assms(1,2) s1 s2 obtain xs where it: "py_iter (dict_get data ''slides'' (JArr [])) = Some xs"
    by (auto simp add: create_ppt_file_def split: option.splits)
  then have xs: "slides_of data = xs" by (simp add: slides_of_def)
  from assms(3) have "list_all (description_printable e) (slides_of data)"
    by (simp add: descriptions_printable_def)
  from content_slides_with_images[OF cs this, of w] obtain ss' w2 where
    cs': "content_slides e ?navy True 0 (slides_of data) w = (Some ss', w2)"
    by blast
  show ?thesis using assms(2) s1 s2 it xs cs' s4 f by (simp add: create_ppt_file_def)
qed

text \<open>
  Claim C7. \<open>fetch_image\<close> with its three retries, on a URL the output can print, makes
  at most three requests, all for the same URL, and returns. An attempt fails when the
  request raises or the status is not 200; after the first, second and third failed
  attempt the function sleeps 1, 2 and 3 seconds. With \<open>k\<close> the number of failed attempts:
  the result is \<open>None\<close> exactly when all three failed, with sleeps of 1, 2 and 3 seconds and
  nothing raised; otherwise it is the body of attempt \<open>k + 1\<close>, which answered 200. No file
  is touched. Only the print of line 185 can raise, before the first attempt, on a URL the
  output cannot encode; the URL the loop over the slides passes has been printed at line
  140 already, so there the image of a slide whose description can be printed is looked
  up without an exception, whatever the network does. And a failed download does not stop
  the call: a text that is rendered to a deck without images is rendered to a deck with
  images as well, whatever the network does, when the descriptions can be printed.
\<close>

theorem C7_download_retries:
  "(printable e url \<longrightarrow>
      (\<forall>r w'. fetch_image e url 3 w = (r, w') \<longrightarrow>
        (\<exists>k res. r = Returns res \<and> k \<le> 3 \<and>
           (\<forall>j<k. attempt_failed (net w (length (requests w) + j))) \<and>
           sleeps w' = sleeps w @ take k [1, 2, 3] \<and>
           length (requests w') \<le> length (requests w) + 3 \<and>
           files w' = files w \<and>
           (res = None \<longrightarrow> k = 3 \<and> requests w' = requests w @ replicate 3 (Download url)) \<and>
           (\<forall>c. res = Some c \<longrightarrow>
              k < 3 \<and> requests w' = requests w @ replicate (Suc k) (Download url) \<and>
              (\<exists>b. net w (length (requests w) + k) = Response 200 c b))))) \<and>
   (\<not> printable e url \<longrightarrow> fetch_image e url 3 w = (Raises, w)) \<and>
   (\<forall>d wa. (py_truthy d \<longrightarrow> printable e d) \<longrightarrow> (\<exists>img wb. try_image e inc d wa = (Returns img, wb))) \<and>
   (\<forall>data f w1. json_loads e raw = Parsed (JObj data) \<and> descriptions_printable e data \<and>
        create_ppt_file e raw False th w0 = (Returned (Some f), w1) \<longrightarrow>
      (\<exists>w2. create_ppt_file e raw True th w0 = (Returned (Some f), w2)))"
proof (intro conjI allI impI)
  fix r w'
  assume pr: "printable e url"
  assume run0: "fetch_image e url 3 w = (r, w')"
  obtain res where r: "r = Returns res" and run: "fetch_loop url 0 3 w = (res, w')"
    using run0 pr by (cases "fetch_loop url 0 3 w") (auto simp add: fetch_image_def)
  let ?n = "length (requests w)"
  let ?goal = "\<lambda>rs k. k \<le> 3 \<and>
         (\<forall>j<k. attempt_failed (net w (?n + j))) \<and>
         sleeps w' = sleeps w @ take k [1, 2, 3] \<and>
         length (requests w') \<le> ?n + 3 \<and>
         files w' = files w \<and>
         (rs = None \<longrightarrow> k = 3 \<and> requests w' = requests w @ replicate 3 (Download url)) \<and>
         (\<forall>c. rs = Some c \<longrightarrow>
            k < 3 \<and> requests w' = requests w @ replicate (Suc k) (Download url) \<and>
            (\<exists>b. net w (?n + k) = Response 200 c b))"
  consider (first) "\<not> attempt_failed (net w ?n)"
    | (second) "attempt_failed (net w ?n)" "\<not> attempt_failed (net w (?n + 1))"
    | (third) "attempt_failed (net w ?n)" "attempt_failed (net w (?n + 1))"
        "\<not> attempt_failed (net w (?n + 2))"
    | (none) "attempt_failed (net w ?n)" "attempt_failed (net w (?n + 1))"
        "attempt_failed (net w (?n + 2))"
    by blast
  then have "\<exists>k. ?goal res k"
  proof cases
    case first
    then obtain c b where ok: "net w ?n = Response 200 c b" using not_failed by blast
    with run have res: "res = Some c" "w' = w\<lparr>requests := requests w @ [Download url]\<rparr>"
      by (simp_all add: fetch_loop_3)
    have "?goal res 0" using ok by (simp add: res)
    then show ?thesis by blast
  next
    case second
    then obtain c b where ok: "net w (?n + 1) = Response 200 c b" using not_failed by blast
    with run second have res: "res = Some c"
      "w' = w\<lparr>requests := requests w @ [Download url, Download url], sleeps := sleeps w @ [1]\<rparr>"
      by (simp_all add: fetch_loop_3)
    have "?goal res 1" using ok second by (simp add: res)
    then show ?thesis by blast
  next
    case third
    then obtain c b where ok: "net w (?n + 2) = Response 200 c b" using not_failed by blast
    with run third have res: "res = Some c"
      "w' = w\<lparr>requests := requests w @ [Download url, Download url, Download url],
                sleeps := sleeps w @ [1, 2]\<rparr>"
      by (simp_all add: fetch_loop_3)
    have fails: "\<forall>j<2. attempt_failed (net w (?n + j))"
      using third by (simp add: less_Suc_eq numeral_2_eq_2)
    have "?goal res 2" using ok fails by (simp add: res numeral_3_eq_3)
    then show ?thesis by blast
  next
    case none
    with run have res: "res = None"
      "w' = w\<lparr>requests := requests w @ [Download url, Download url, Download url],
                sleeps := sleeps w @ [1, 2, 3]\<rparr>"
      by (simp_all add: fetch_loop_3)
    have fails: "\<forall>j<3. attempt_failed (net w (?n + j))"
      using none by (simp add: less_Suc_eq numeral_3_eq_3)
    have "?goal res 3" using fails by (simp add: res numeral_3_eq_3)
    then show ?thesis by blast
  qed
  with r show "\<exists>k rs. r = Returns rs \<and> ?goal rs k" by blast
next
  assume "\<not> printable e url"
  then show "fetch_image e url 3 w = (Raises, w)" by (simp add: fetch_image_def)
next
  fix d wa
  assume "py_truthy d \<longrightarrow> printable e d"
  then show "\<exists>img wb. try_image e inc d wa = (Returns img, wb)"
    by (rule try_image_returns)
next
  fix data f w1
  assume "json_loads e raw = Parsed (JObj data) \<and> descriptions_printable e data \<and>
        create_ppt_file e raw False th w0 = (Returned (Some f), w1)"
  then have l: "json_loads e raw = Parsed (JObj data)" and p: "descriptions_printable e data"
    and run: "create_ppt_file e raw False th w0 = (Returned (Some f), w1)"
    by simp_all
  from create_ppt_file_with_images[OF run l p]
  show "\<exists>w2. create_ppt_file e raw True th w0 = (Returned (Some f), w2)" .
qed


theorem C7_download_retries_witness:
  "printable demo_env (JStr (ustr_of ''https://img'')) \<and>
   (\<exists>w'. fetch_image demo_env (JStr (ustr_of ''https://img'')) 3
            (world_down\<lparr>requests := [Search (JStr (ustr_of ''road''))]\<rparr>) = (Returns None, w') \<and>
         sleeps w' = [1, 2, 3] \<and>
         requests w' = [Search (JStr (ustr_of ''road'')), Download (JStr (ustr_of ''https://img'')),
                        Download (JStr (ustr_of ''https://img'')), Download (JStr (ustr_of ''https://img''))]) \<and>
   (\<exists>w'. fetch_image demo_env (JStr (ustr_of ''https://img'')) 3
            (world_jpeg\<lparr>requests := [Search (JStr (ustr_of ''road''))]\<rparr>) =
              (Returns (Some [255, 216, 255]), w') \<and>
         sleeps w' = [] \<and>
         requests w' = [Search (JStr (ustr_of ''road'')), Download (JStr (ustr_of ''https://img''))]) \<and>
   fetch_image demo_env (JStr [55296]) 3 world_down = (Raises, world_down) \<and>
   (\<exists>img wb. try_image demo_env True (JStr (ustr_of ''road'')) world_down = (Returns img, wb)) \<and>
   descriptions_printable demo_env demo_data \<and>
   (\<exists>f w1 w2.
      create_ppt_file demo_env demo_raw False (ustr_of ''#003366'') world_down = (Returned (Some f), w1) \<and>
      create_ppt_file demo_env demo_raw True (ustr_of ''#003366'') world_down = (Returned (Some f), w2))"
proof -
  let ?url = "JStr (ustr_of ''https://img'')"
  let ?th = "ustr_of ''#003366''"
  let ?down = "world_down\<lparr>requests := [Search (JStr (ustr_of ''road''))]\<rparr>"
  let ?jpeg = "world_jpeg\<lparr>requests := [Search (JStr (ustr_of ''road''))]\<rparr>"
  note c7d = C7_download_retries[of demo_env ?url ?down True demo_raw ?th world_down]
  note c7j = C7_download_retries[of demo_env ?url ?jpeg True demo_raw ?th world_down]
  note c7s = C7_download_retries[of demo_env "JStr [55296]" world_down True demo_raw ?th world_down]
  obtain rd wd where rd: "fetch_image demo_env ?url 3 ?down = (rd, wd)"
    by (cases "fetch_image demo_env ?url 3 ?down")
  obtain rj wj where rj: "fetch_image demo_env ?url 3 ?jpeg = (rj, wj)"
    by (cases "fetch_image demo_env ?url 3 ?jpeg")
  from c7d demo_printable_url rd obtain k res where
    r: "rd = Returns res" and
    f: "\<forall>j<k. attempt_failed (net ?down (length (requests ?down) + j))" and
    s: "sleeps wd = sleeps ?down @ take k [1, 2, 3]" and
    n: "res = None \<longrightarrow> k = 3 \<and> requests wd = requests ?down @ replicate 3 (Download ?url)" and
    c: "\<forall>c. res = Some c \<longrightarrow>
              k < 3 \<and> requests wd = requests ?down @ replicate (Suc k) (Download ?url) \<and>
              (\<exists>b. net ?down (length (requests ?down) + k) = Response 200 c b)"
    by blast
  have none: "res = None"
  proof (cases res)
    case None
    then show ?thesis .
  next
    case (Some c0)
    with c have "k < 3" and "\<exists>b. net ?down (length (requests ?down) + k) = Response 200 c0 b"
      by simp_all
    then show ?thesis
      by (auto simp add: world_down_def less_Suc_eq numeral_3_eq_3 split: if_splits)
  qed
  with n s have a: "sleeps wd = [1, 2, 3]"
    "requests wd = [Search (JStr (ustr_of ''road'')), Download ?url, Download ?url, Download ?url]"
    by (simp_all add: world_down_def numeral_3_eq_3)
  from rd r none have a0: "fetch_image demo_env ?url 3 ?down = (Returns None, wd)" by simp
  from c7j demo_printable_url rj obtain k' res' where
    r': "rj = Returns res'" and
    fails: "\<forall>j<k'. attempt_failed (net ?jpeg (length (requests ?jpeg) + j))" and
    sl: "sleeps wj = sleeps ?jpeg @ take k' [1, 2, 3]" and
    n': "res' = None \<longrightarrow> k' = 3 \<and> requests wj = requests ?jpeg @ replicate 3 (Download ?url)" and
    sm: "\<forall>c. res' = Some c \<longrightarrow>
            k' < 3 \<and> requests wj = requests ?jpeg @ replicate (Suc k') (Download ?url) \<and>
            (\<exists>b. net ?jpeg (length (requests ?jpeg) + k') = Response 200 c b)"
    by blast
  have k0: "k' = 0"
  proof (rule ccontr)
    assume "k' \<noteq> 0"
    then have "0 < k'" by simp
    with fails have "attempt_failed (net ?jpeg (length (requests ?jpeg) + 0))" by blast
    then show False by (simp add: world_jpeg_def)
  qed
  with n' obtain c1 where some: "res' = Some c1" by (cases res') simp_all
  with sm k0 have "\<exists>b. net ?jpeg (length (requests ?jpeg) + 0) = Response 200 c1 b" by simp
  then have c1: "c1 = [255, 216, 255]" by (simp add: world_jpeg_def)
  from sl sm k0 some have b: "sleeps wj = []"
    "requests wj = [Search (JStr (ustr_of ''road'')), Download ?url]"
    by (simp_all add: world_jpeg_def)
  from rj r' some c1 have b0: "fetch_image demo_env ?url 3 ?jpeg = (Returns (Some [255, 216, 255]), wj)"
    by simp
  have "\<not> printable demo_env (JStr [55296])" by (simp add: demo_printable)
  with c7s have s0: "fetch_image demo_env (JStr [55296]) 3 world_down = (Raises, world_down)"
    by blast
  have "py_truthy (JStr (ustr_of ''road'')) \<longrightarrow> printable demo_env (JStr (ustr_of ''road''))"
    by (simp add: demo_printable_road)
  with c7d have t0: "\<exists>img wb. try_image demo_env True (JStr (ustr_of ''road'')) world_down = (Returns img, wb)"
    by blast
  from create_ppt_file_returns[OF demo_loads demo_tree, where inc = False and th = ?th and w = world_down]
  obtain f0 w1 where plain: "create_ppt_file demo_env demo_raw False ?th world_down = (Returned (Some f0), w1)"
    by blast
  with c7d demo_loads demo_descriptions
  have "\<exists>w2. create_ppt_file demo_env demo_raw True ?th world_down = (Returned (Some f0), w2)"
    by blast
  with plain have p0: "\<exists>f w1 w2.
      create_ppt_file demo_env demo_raw False ?th world_down = (Returned (Some f), w1) \<and>
      create_ppt_file demo_env demo_raw True ?th world_down = (Returned (Some f), w2)"
    by blast
  from demo_printable_url a0 a b0 b s0 t0 demo_descriptions p0 show ?thesis by blast
qed

section \<open>The order of the slides\<close>

lemma dict_get_other:
  "key \<noteq> k \<Longrightarrow> dict_get ((ustr_of k, v) # data) key dflt = dict_get data key dflt"
  by (simp add: dict_get_def)

lemma field_ok_other:
  "key \<noteq> k \<Longrightarrow> field_ok ((ustr_of k, v) # data) key ok = field_ok data key ok"
  by (simp add: field_ok_def)

lemma content_tree_new_toc:
  "content_tree data \<Longrightarrow> is_list toc \<Longrightarrow> content_tree ((ustr_of ''table_of_contents'', toc) # data)"
  by (simp add: content_tree_def field_ok_other) (simp add: field_ok_def)


lemma slides_of_new_toc:
  "slides_of ((ustr_of ''table_of_contents'', toc) # data) = slides_of data"
  by (simp add: slides_of_def dict_get_other)



lemma descriptions_printable_new_toc:
  "descriptions_printable e ((ustr_of ''table_of_contents'', toc) # data) = descriptions_printable e data"
  by (simp add: descriptions_printable_def slides_of_new_toc)






end
